theory Spec2Isabelle
  imports Complex_Main
begin

section \<open>Floating-point numbers\<close>

text \<open>
  A Python \<^verbatim>\<open>float\<close> is an IEEE 754 double. A finite double is modelled by the real
  number it denotes (the two zeros are one number). The result of an arithmetic operation
  on doubles is the exact result rounded to the nearest double, a value half way between
  two doubles going to the one with the even significand: this rounding is
  \<open>round_double\<close>. An operation whose result is too large for a double gives infinity on
  the machine and is outside the model: \<open>is_double\<close> bounds the magnitude of a double,
  and \<open>round_double\<close> is the machine's rounding for results below that bound.
\<close>

definition round_half_even :: "real \<Rightarrow> int" where
  "round_half_even x =
     (let f = \<lfloor>x\<rfloor>; d = x - of_int f
      in if d < 1 / 2 then f
         else if 1 / 2 < d then f + 1
         else if even f then f else f + 1)"

text \<open>
  The doubles with magnitude in \<^verbatim>\<open>[2^e, 2^(e+1))\<close> are the multiples of \<^verbatim>\<open>2^(e-52)\<close>,
  for \<^verbatim>\<open>e >= -1022\<close>; below \<^verbatim>\<open>2^-1022\<close> (the subnormal numbers) they are the
  multiples of \<^verbatim>\<open>2^-1074\<close>. \<open>binade x\<close> is that exponent \<open>e\<close> for the real \<open>x\<close>, and
  \<open>ulp x\<close> the distance between neighbouring doubles there.
\<close>

definition binade :: "real \<Rightarrow> int" where
  "binade x = max \<lfloor>log 2 \<bar>x\<bar>\<rfloor> (- 1022)"

definition ulp :: "real \<Rightarrow> real" where
  "ulp x = 2 powr of_int (binade x - 52)"

definition round_double :: "real \<Rightarrow> real" where
  "round_double x = (if x = 0 then 0 else of_int (round_half_even (x / ulp x)) * ulp x)"

definition is_double :: "real \<Rightarrow> bool" where
  "is_double x \<longleftrightarrow> round_double x = x \<and> \<bar>x\<bar> < 2 ^ 1024"

text \<open>The operators \<^verbatim>\<open>*\<close> and \<^verbatim>\<open>-\<close> on two floats.\<close>

definition float_mul :: "real \<Rightarrow> real \<Rightarrow> real" where
  "float_mul x y = round_double (x * y)"

definition float_sub :: "real \<Rightarrow> real \<Rightarrow> real" where
  "float_sub x y = round_double (x - y)"

section \<open>Configuration constants\<close>

text \<open>
  The module-level constants of \<^verbatim>\<open>generate_calendar.py\<close>. A decimal literal such as
  \<^verbatim>\<open>0.19\<close> denotes the double nearest to the decimal number.
\<close>

definition SPANISH_RATE :: real where
  "SPANISH_RATE = round_double (19 / 100)"

definition DEFAULT_FOREIGN_WITHHOLDING :: real where
  "DEFAULT_FOREIGN_WITHHOLDING = round_double (15 / 100)"

definition EUR :: string where
  "EUR = ''EUR''"

section \<open>Tax calculator: \<^verbatim>\<open>compute_net\<close>\<close>

text \<open>
  Python's \<^verbatim>\<open>round(x, n)\<close> on a float \<open>x\<close> rounds the exact value of \<open>x\<close> to the nearest
  multiple of \<^verbatim>\<open>10^-n\<close>, a value exactly half way between two multiples going to the even
  one (\<open>round_decimal\<close>), and returns the double nearest to that decimal number.
\<close>

definition round_decimal :: "real \<Rightarrow> nat \<Rightarrow> real" where
  "round_decimal x n = of_int (round_half_even (x * 10 ^ n)) / 10 ^ n"

definition py_round :: "real \<Rightarrow> nat \<Rightarrow> real" where
  "py_round x n = round_double (round_decimal x n)"

text \<open>The dictionary \<^verbatim>\<open>compute_net\<close> returns.\<close>

record tax_breakdown =
  gross_total :: real
  withholding_foreign :: real
  spanish_tax_to_pay :: real
  net_total :: real

text \<open>
  The local variables of \<^verbatim>\<open>compute_net\<close> before rounding, in the order the source
  assigns them. \<^verbatim>\<open>gross_total - withholding_foreign - spanish_to_pay\<close> is two
  subtractions, from left to right. \<^verbatim>\<open>max(0.0, x)\<close> is \<open>x\<close> when \<open>x > 0.0\<close> and \<open>0.0\<close>
  otherwise.
\<close>

record compute_net_locals =
  l_withholding_foreign :: real
  l_spanish_theoretical :: real
  l_spanish_to_pay :: real
  l_net_total :: real

definition compute_net_body :: "real \<Rightarrow> real \<Rightarrow> real \<Rightarrow> compute_net_locals" where
  "compute_net_body gross rate_foreign spanish_rate =
     (let wf = float_mul gross rate_foreign;
          st = float_mul gross spanish_rate;
          sp = max 0 (float_sub st wf);
          nt = float_sub (float_sub gross wf) sp
      in \<lparr>l_withholding_foreign = wf, l_spanish_theoretical = st,
          l_spanish_to_pay = sp, l_net_total = nt\<rparr>)"

definition compute_net :: "real \<Rightarrow> real \<Rightarrow> real \<Rightarrow> tax_breakdown" where
  "compute_net gross rate_foreign spanish_rate =
     (let l = compute_net_body gross rate_foreign spanish_rate
      in \<lparr>gross_total = py_round gross 6,
          withholding_foreign = py_round (l_withholding_foreign l) 6,
          spanish_tax_to_pay = py_round (l_spanish_to_pay l) 6,
          net_total = py_round (l_net_total l) 6\<rparr>)"

section \<open>Calendar dates\<close>

text \<open>
  A \<^verbatim>\<open>datetime.date\<close>: year, month and day. Dates compare as Python compares them,
  first by year, then by month, then by day.
\<close>

datatype date = Date (year: nat) (month: nat) (day: nat)

instantiation date :: linorder
begin

definition less_eq_date :: "date \<Rightarrow> date \<Rightarrow> bool" where
  "less_eq_date a b \<longleftrightarrow>
     year a < year b \<or> (year a = year b \<and>
       (month a < month b \<or> (month a = month b \<and> day a \<le> day b)))"

definition less_date :: "date \<Rightarrow> date \<Rightarrow> bool" where
  "less_date a b \<longleftrightarrow>
     year a < year b \<or> (year a = year b \<and>
       (month a < month b \<or> (month a = month b \<and> day a < day b)))"

instance
  by standard (auto simp: less_eq_date_def less_date_def date.expand)

end

text \<open>
  \<^verbatim>\<open>date.isoformat()\<close> (also \<^verbatim>\<open>str(date)\<close>): \<^verbatim>\<open>YYYY-MM-DD\<close>, each number in decimal,
  padded with zeros to 4, 2 and 2 digits. (\<open>digit_char\<close> is only applied to numbers
  below 10.)
\<close>

definition digit_char :: "nat \<Rightarrow> char" where
  "digit_char n = ''0123456789'' ! n"

fun str_nat :: "nat \<Rightarrow> string" where
  "str_nat n =
     (if n < 10 then [digit_char n] else str_nat (n div 10) @ [digit_char (n mod 10)])"

declare str_nat.simps [simp del]

definition str_int :: "int \<Rightarrow> string" where
  "str_int i = (if i < 0 then ''-'' @ str_nat (nat (- i)) else str_nat (nat i))"

definition zfill :: "nat \<Rightarrow> string \<Rightarrow> string" where
  "zfill w s = replicate (w - length s) (CHR ''0'') @ s"

definition isoformat :: "date \<Rightarrow> string" where
  "isoformat d =
     zfill 4 (str_nat (year d)) @ ''-'' @ zfill 2 (str_nat (month d)) @ ''-''
       @ zfill 2 (str_nat (day d))"

section \<open>Strings\<close>

text \<open>
  Python strings are modelled as byte strings (UTF-8 for the characters outside ASCII
  that the source writes in its literals). \<^verbatim>\<open>str.upper()\<close> and \<^verbatim>\<open>str.strip()\<close> are
  modelled on ASCII: \<open>upper_str\<close> maps \<^verbatim>\<open>a\<close>..\<^verbatim>\<open>z\<close> to \<^verbatim>\<open>A\<close>..\<^verbatim>\<open>Z\<close> and leaves every other
  byte alone, \<open>strip\<close> removes leading and trailing ASCII white space.
\<close>

definition upper_char :: "char \<Rightarrow> char" where
  "upper_char c =
     (case map_of (zip ''abcdefghijklmnopqrstuvwxyz'' ''ABCDEFGHIJKLMNOPQRSTUVWXYZ'') c of
        None \<Rightarrow> c
      | Some u \<Rightarrow> u)"

definition upper_str :: "string \<Rightarrow> string" where
  "upper_str s = map upper_char s"

definition is_space :: "char \<Rightarrow> bool" where
  "is_space c \<longleftrightarrow>
     (let n = (of_char c :: nat) in n = 32 \<or> (9 \<le> n \<and> n \<le> 13) \<or> (28 \<le> n \<and> n \<le> 31))"

definition strip :: "string \<Rightarrow> string" where
  "strip s = rev (dropWhile is_space (rev (dropWhile is_space s)))"

definition utf8 :: "nat list \<Rightarrow> string" where
  "utf8 bs = map char_of bs"

definition newline :: string where
  "newline = utf8 [10]"

section \<open>Exceptions, Python values and the log\<close>

text \<open>
  The exceptions the program can meet. \<open>ProviderError\<close> stands for whatever a
  collaborator (market data, HTTP, file system) raises, with its message.
\<close>

datatype exn =
    ValueError
  | TypeError
  | AttributeError
  | KeyError
  | OverflowError
  | ParserError
  | UnboundLocalError
  | ProviderError string

text \<open>
  A Python float where the source tests for NaN: NaN, or a finite double, given by the
  real number it denotes (infinite floats are left out of the model).
\<close>

datatype pyfloat = NaN | Finite real

text \<open>
  The values the market-data provider hands to the program where a date or an amount is
  expected, by the way the source inspects them:
  \<^item> \<open>PyNone\<close>: \<^verbatim>\<open>None\<close>;
  \<^item> \<open>PyFloat\<close>, \<open>PyInt\<close>: instances of \<^verbatim>\<open>float\<close> and \<^verbatim>\<open>int\<close>;
  \<^item> \<open>PyDatetimeLike r\<close>: an object with a \<^verbatim>\<open>to_pydatetime\<close> attribute (a pandas
    timestamp); \<open>r\<close> is the date \<^verbatim>\<open>x.to_pydatetime().date()\<close> evaluates to, or \<open>None\<close> when
    that expression raises;
  \<^item> \<open>PyNA\<close>: any other object for which \<^verbatim>\<open>pd.isna(x)\<close> is true;
  \<^item> \<open>PyArrayLike\<close>: a list or array, for which the truth value of \<^verbatim>\<open>pd.isna(x)\<close>
    raises \<^verbatim>\<open>ValueError\<close>;
  \<^item> \<open>PyOther s\<close>: any other object, \<open>s\<close> being \<^verbatim>\<open>str(x)\<close> (a string is its own
    \<^verbatim>\<open>str\<close>).
\<close>

datatype pyvalue =
    PyNone
  | PyFloat pyfloat
  | PyInt int
  | PyDatetimeLike "date option"
  | PyNA
  | PyArrayLike
  | PyOther string

text \<open>What the program prints, one entry per \<^verbatim>\<open>print\<close> call, with the values it formats.\<close>

datatype log_entry =
    FxRateNotFound string string
  | FxRateError string string exn
  | InfoFailed string exn
  | CalendarFailed string exn
  | EarningsFailed string exn
  | DividendsFailed string exn
  | ActionsFailed string exn
  | Processing string string
  | HoldingError string exn
  | EventsFound string nat
  | EventsSaved string nat
  | CalendarUpdated string

section \<open>Collaborators\<close>

text \<open>The JSON body the exchange-rate service answers with.\<close>

datatype fx_json =
    JsonNotDict
  | JsonDict (json_result: "string option") (json_rates: "(string \<rightharpoonup> real) option")

text \<open>
  The dictionary \<^verbatim>\<open>tk.info\<close>. A name is \<open>None\<close> when the key is absent or its value is
  \<^verbatim>\<open>None\<close>; the last dividend value is \<open>None\<close> when the key is absent.
\<close>

record info_dict =
  info_shortName :: "string option"
  info_longName :: "string option"
  info_lastDividendValue :: "pyvalue option"

text \<open>
  The shapes of \<^verbatim>\<open>tk.calendar\<close>: \<^verbatim>\<open>None\<close>, a dictionary, a data frame, or anything else
  (a float NaN has been observed). A dictionary and a data frame are given by their
  labelled rows, each with the value the source reads from it (the first cell of the
  row); a frame without rows is empty.
\<close>

datatype calendar_value =
    CalNone
  | CalDict "(string \<times> pyvalue) list"
  | CalFrame "(string \<times> pyvalue) list"
  | CalOther

text \<open>
  \<^verbatim>\<open>tk.actions\<close>: whether the frame has a \<^verbatim>\<open>Dividends\<close> column, and its rows (index value,
  value of the \<^verbatim>\<open>Dividends\<close> column, a finite double).
\<close>

record actions_frame =
  has_dividends_column :: bool
  action_rows :: "(pyvalue \<times> real) list"

text \<open>
  What the attributes of \<^verbatim>\<open>yf.Ticker(ticker)\<close> evaluate to; \<open>Inl\<close> is an exception raised
  by the attribute access. \<^verbatim>\<open>tk.earnings_dates\<close> is \<^verbatim>\<open>None\<close> or a frame given by its index;
  \<^verbatim>\<open>tk.dividends\<close> is \<^verbatim>\<open>None\<close> or a series of (index value, amount), the amounts being
  finite doubles.
\<close>

record ticker_source =
  tk_info :: "exn + info_dict"
  tk_calendar :: "exn + calendar_value"
  tk_earnings_dates :: "exn + pyvalue list option"
  tk_dividends :: "exn + (pyvalue \<times> real) list option"
  tk_actions :: "exn + actions_frame option"

text \<open>
  Everything outside the program that its functions call:
  \<^item> \<open>fromtimestamp x\<close>: \<^verbatim>\<open>datetime.fromtimestamp(x).date()\<close>, the local calendar date of
    an epoch time, or the exception it raises;
  \<^item> \<open>parse s\<close>: \<^verbatim>\<open>dateutil.parser.parse(s).date()\<close>, or the exception it raises;
  \<^item> \<open>yf_Ticker\<close>: the market-data provider;
  \<^item> \<open>http_get_json url\<close>: \<^verbatim>\<open>requests.get(url)\<close>, \<^verbatim>\<open>raise_for_status()\<close> and \<^verbatim>\<open>json()\<close>;
  \<^item> \<open>list_of_date_set\<close>, \<open>list_of_pair_set\<close>: the order in which \<^verbatim>\<open>list(set(xs))\<close> lists
    the elements of the set (Python does not specify it);
  \<^item> \<open>fmt_fixed n x\<close>: the format \<^verbatim>\<open>{x:.nf}\<close>; \<open>fmt_float x\<close>: \<^verbatim>\<open>str(x)\<close> of a float.
\<close>

record world =
  fromtimestamp :: "real \<Rightarrow> exn + date"
  parse :: "string \<Rightarrow> exn + date"
  yf_Ticker :: "string \<Rightarrow> exn + ticker_source"
  http_get_json :: "string \<Rightarrow> exn + fx_json"
  list_of_date_set :: "date list \<Rightarrow> date list"
  list_of_pair_set :: "(date \<times> real) list \<Rightarrow> (date \<times> real) list"
  fmt_fixed :: "nat \<Rightarrow> real \<Rightarrow> string"
  fmt_float :: "real \<Rightarrow> string"

text \<open>
  \<^verbatim>\<open>list(set(xs))\<close> has the elements of \<open>xs\<close>, each once, in some order.
\<close>

definition set_order_ok :: "world \<Rightarrow> bool" where
  "set_order_ok w \<longleftrightarrow>
     (\<forall>xs. distinct (list_of_date_set w xs) \<and> set (list_of_date_set w xs) = set xs)
     \<and> (\<forall>xs. distinct (list_of_pair_set w xs) \<and> set (list_of_pair_set w xs) = set xs)"

section \<open>Exchange rates: \<^verbatim>\<open>get_fx_rate\<close>\<close>

text \<open>
  The result is the rate, the URLs requested from the exchange-rate service (in order)
  and the lines printed. \<^verbatim>\<open>base_currency or "EUR"\<close> replaces \<^verbatim>\<open>None\<close> and the empty string.
\<close>

definition fx_url :: "string \<Rightarrow> string" where
  "fx_url base = ''https://open.er-api.com/v6/latest/'' @ base"

definition get_fx_rate ::
  "world \<Rightarrow> string option \<Rightarrow> string \<Rightarrow> real \<times> string list \<times> log_entry list" where
  "get_fx_rate w base_currency target_currency =
     (let base = upper_str (case base_currency of
                              None \<Rightarrow> ''EUR''
                            | Some b \<Rightarrow> if b = [] then ''EUR'' else b);
          target = upper_str target_currency
      in if base = target then (1, [], [])
         else
           (case http_get_json w (fx_url base) of
              Inl e \<Rightarrow> (1, [fx_url base], [FxRateError base target e])
            | Inr JsonNotDict \<Rightarrow> (1, [fx_url base], [FxRateError base target AttributeError])
            | Inr (JsonDict res rates) \<Rightarrow>
                (case (if res = Some ''success''
                       then (case rates of None \<Rightarrow> None | Some m \<Rightarrow> m target)
                       else None) of
                   Some v \<Rightarrow> (v, [fx_url base], [])
                 | None \<Rightarrow> (1, [fx_url base], [FxRateNotFound base target]))))"

section \<open>Date normalizer: \<^verbatim>\<open>safe_parse_date\<close>\<close>

text \<open>
  The body of the \<^verbatim>\<open>try\<close> block: \<open>Inl\<close> is an exception raised inside it. The cases
  follow the order of the source's tests: \<^verbatim>\<open>isinstance(x, (int, float))\<close>,
  \<^verbatim>\<open>hasattr(x, 'to_pydatetime')\<close>, \<^verbatim>\<open>pd.isna(x)\<close>, and the parse of \<^verbatim>\<open>str(x)\<close>.
  (\<^verbatim>\<open>datetime.fromtimestamp\<close> raises \<^verbatim>\<open>ValueError\<close> on NaN.)
\<close>

fun safe_parse_date_try :: "world \<Rightarrow> pyvalue \<Rightarrow> exn + date option" where
  "safe_parse_date_try w (PyInt n) =
     (case fromtimestamp w (of_int n) of Inl e \<Rightarrow> Inl e | Inr d \<Rightarrow> Inr (Some d))"
| "safe_parse_date_try w (PyFloat (Finite r)) =
     (case fromtimestamp w r of Inl e \<Rightarrow> Inl e | Inr d \<Rightarrow> Inr (Some d))"
| "safe_parse_date_try w (PyFloat NaN) = Inl ValueError"
| "safe_parse_date_try w (PyDatetimeLike None) = Inl AttributeError"
| "safe_parse_date_try w (PyDatetimeLike (Some d)) = Inr (Some d)"
| "safe_parse_date_try w PyNone = Inr None"
| "safe_parse_date_try w PyNA = Inr None"
| "safe_parse_date_try w PyArrayLike = Inl ValueError"
| "safe_parse_date_try w (PyOther s) =
     (case parse w s of Inl e \<Rightarrow> Inl e | Inr d \<Rightarrow> Inr (Some d))"

text \<open>
  The function: the test for \<^verbatim>\<open>None\<close> and NaN stands before the \<^verbatim>\<open>try\<close>;
  \<^verbatim>\<open>except Exception: return None\<close> turns every exception of the body into \<^verbatim>\<open>None\<close>.
  The result is \<open>Inl e\<close> when the call raises \<open>e\<close>, \<open>Inr r\<close> when it returns \<open>r\<close>.
\<close>

definition safe_parse_date :: "world \<Rightarrow> pyvalue \<Rightarrow> exn + date option" where
  "safe_parse_date w x =
     (if x = PyNone \<or> x = PyFloat NaN then Inr None
      else (case safe_parse_date_try w x of
              Inl e \<Rightarrow> Inr None
            | Inr r \<Rightarrow> Inr r))"

section \<open>Ticker event fetcher: \<^verbatim>\<open>fetch_info_for_ticker\<close>\<close>

text \<open>
  The dictionary \<^verbatim>\<open>out\<close> while the sources are read, the local \<^verbatim>\<open>last_div_amount\<close>, and
  the lines printed so far. Before the final clean-up the earnings list may hold \<^verbatim>\<open>None\<close>
  (the historical source appends every result of \<^verbatim>\<open>safe_parse_date\<close>).
\<close>

record fetch_state =
  st_shortName :: "string option"
  st_dividends_history :: "(date \<times> real) list"
  st_earnings_dates :: "date option list"
  st_ex_dividend_dates :: "date list"
  last_div_amount :: pyvalue
  st_log :: "log_entry list"

text \<open>The dictionary \<^verbatim>\<open>fetch_info_for_ticker\<close> returns.\<close>

record ticker_info =
  shortName :: "string option"
  dividends_history :: "(date \<times> real) list"
  earnings_dates :: "date list"
  ex_dividend_dates :: "date list"

definition initial_fetch_state :: fetch_state where
  "initial_fetch_state =
     \<lparr>st_shortName = None, st_dividends_history = [], st_earnings_dates = [],
      st_ex_dividend_dates = [], last_div_amount = PyFloat (Finite 0), st_log = []\<rparr>"

definition add_log :: "log_entry \<Rightarrow> fetch_state \<Rightarrow> fetch_state" where
  "add_log l st = st\<lparr>st_log := st_log st @ [l]\<rparr>"

text \<open>\<^verbatim>\<open>a or b\<close> on optional strings: \<^verbatim>\<open>None\<close> and the empty string are false.\<close>

definition py_or :: "string option \<Rightarrow> string option \<Rightarrow> string option" where
  "py_or a b = (case a of None \<Rightarrow> b | Some s \<Rightarrow> if s = [] then b else a)"

text \<open>
  Source 1, general info: the display name, and \<^verbatim>\<open>info.get('lastDividendValue', 0.0)\<close>.
\<close>

definition step_info :: "string \<Rightarrow> ticker_source \<Rightarrow> fetch_state \<Rightarrow> fetch_state" where
  "step_info ticker src st =
     (case tk_info src of
        Inl e \<Rightarrow> add_log (InfoFailed ticker e) st
      | Inr info \<Rightarrow>
          st\<lparr>st_shortName := py_or (info_shortName info) (info_longName info),
             last_div_amount :=
               (case info_lastDividendValue info of
                  None \<Rightarrow> PyFloat (Finite 0)
                | Some v \<Rightarrow> v)\<rparr>)"

text \<open>
  \<^verbatim>\<open>x > 0\<close> and \<^verbatim>\<open>float(x)\<close> on a value: numbers compare, NaN is not greater than
  anything, every other value raises \<^verbatim>\<open>TypeError\<close>. \<^verbatim>\<open>float\<close> of an \<^verbatim>\<open>int\<close> is the nearest
  double (an \<^verbatim>\<open>int\<close> beyond the range of the doubles is outside the model).
  (\<^verbatim>\<open>float(nan)\<close> is NaN, which is no real number; the source reaches \<^verbatim>\<open>float\<close> only
  after \<^verbatim>\<open>x > 0\<close> held, so the equation for NaN is never used.)
\<close>

fun py_gt_zero :: "pyvalue \<Rightarrow> exn + bool" where
  "py_gt_zero (PyFloat (Finite r)) = Inr (0 < r)"
| "py_gt_zero (PyFloat NaN) = Inr False"
| "py_gt_zero (PyInt n) = Inr (0 < n)"
| "py_gt_zero _ = Inl TypeError"

fun py_float :: "pyvalue \<Rightarrow> exn + real" where
  "py_float (PyFloat (Finite r)) = Inr r"
| "py_float (PyInt n) = Inr (round_double (of_int n))"
| "py_float (PyFloat NaN) = Inl ValueError"
| "py_float _ = Inl TypeError"

text \<open>
  Steps of a \<^verbatim>\<open>try\<close> block run in order; a step that raises ends the block, and what the
  earlier steps appended stays.
\<close>

fun run_steps ::
  "(fetch_state \<Rightarrow> exn + fetch_state) list \<Rightarrow> fetch_state \<Rightarrow> fetch_state \<times> exn option" where
  "run_steps [] st = (st, None)"
| "run_steps (f # fs) st =
     (case f st of
        Inl e \<Rightarrow> (st, Some e)
      | Inr st' \<Rightarrow> run_steps fs st')"

text \<open>
  Source 2, the forward-looking calendar. \<open>calendar_frame\<close> is the shape test: \<^verbatim>\<open>None\<close>
  and the empty dictionary raise \<^verbatim>\<open>ValueError\<close>, a dictionary becomes a frame, anything
  that is not a frame raises \<^verbatim>\<open>TypeError\<close>.
\<close>

definition calendar_frame :: "calendar_value \<Rightarrow> exn + (string \<times> pyvalue) list" where
  "calendar_frame cal =
     (case cal of
        CalNone \<Rightarrow> Inl ValueError
      | CalDict kvs \<Rightarrow> if kvs = [] then Inl ValueError else Inr kvs
      | CalFrame rows \<Rightarrow> Inr rows
      | CalOther \<Rightarrow> Inl TypeError)"

text \<open>
  \<^verbatim>\<open>safe_parse_date\<close> of the row with the given label, \<open>None\<close> when the label is not in
  the index.
\<close>

definition parse_row :: "world \<Rightarrow> (string \<times> pyvalue) list \<Rightarrow> string \<Rightarrow> exn + date option" where
  "parse_row w rows label =
     (case map_of rows label of
        None \<Rightarrow> Inr None
      | Some v \<Rightarrow> safe_parse_date w v)"

definition cal_earnings :: "world \<Rightarrow> (string \<times> pyvalue) list \<Rightarrow> fetch_state \<Rightarrow> exn + fetch_state" where
  "cal_earnings w rows st =
     (case parse_row w rows ''Earnings Date'' of
        Inl e \<Rightarrow> Inl e
      | Inr None \<Rightarrow> Inr st
      | Inr (Some next_earn) \<Rightarrow>
          Inr (st\<lparr>st_earnings_dates := st_earnings_dates st @ [Some next_earn]\<rparr>))"

definition cal_ex_dividend :: "world \<Rightarrow> (string \<times> pyvalue) list \<Rightarrow> fetch_state \<Rightarrow> exn + fetch_state" where
  "cal_ex_dividend w rows st =
     (case parse_row w rows ''Ex-Dividend Date'' of
        Inl e \<Rightarrow> Inl e
      | Inr None \<Rightarrow> Inr st
      | Inr (Some next_ex_div) \<Rightarrow>
          Inr (st\<lparr>st_ex_dividend_dates := st_ex_dividend_dates st @ [next_ex_div]\<rparr>))"

definition cal_dividend :: "world \<Rightarrow> (string \<times> pyvalue) list \<Rightarrow> fetch_state \<Rightarrow> exn + fetch_state" where
  "cal_dividend w rows st =
     (case parse_row w rows ''Dividend Date'' of
        Inl e \<Rightarrow> Inl e
      | Inr None \<Rightarrow> Inr st
      | Inr (Some next_pay_div) \<Rightarrow>
          (case py_gt_zero (last_div_amount st) of
             Inl e \<Rightarrow> Inl e
           | Inr positive \<Rightarrow>
               if positive
               then (case py_float (last_div_amount st) of
                       Inl e \<Rightarrow> Inl e
                     | Inr a \<Rightarrow>
                         Inr (st\<lparr>st_dividends_history :=
                                   st_dividends_history st @ [(next_pay_div, a)]\<rparr>))
               else Inr st))"

definition calendar_try :: "world \<Rightarrow> ticker_source \<Rightarrow> fetch_state \<Rightarrow> fetch_state \<times> exn option" where
  "calendar_try w src st =
     (case tk_calendar src of
        Inl e \<Rightarrow> (st, Some e)
      | Inr cal \<Rightarrow>
          (case calendar_frame cal of
             Inl e \<Rightarrow> (st, Some e)
           | Inr rows \<Rightarrow>
               if rows = [] then (st, None)
               else run_steps [cal_earnings w rows, cal_ex_dividend w rows, cal_dividend w rows] st))"

definition step_calendar :: "world \<Rightarrow> string \<Rightarrow> ticker_source \<Rightarrow> fetch_state \<Rightarrow> fetch_state" where
  "step_calendar w ticker src st =
     (case calendar_try w src st of
        (st', None) \<Rightarrow> st'
      | (st', Some e) \<Rightarrow> add_log (CalendarFailed ticker e) st')"

text \<open>
  Source 3a, historical earnings dates: the list comprehension over the index is
  evaluated first, then appended as a whole.
\<close>

fun parse_all :: "world \<Rightarrow> pyvalue list \<Rightarrow> exn + date option list" where
  "parse_all w [] = Inr []"
| "parse_all w (x # xs) =
     (case safe_parse_date w x of
        Inl e \<Rightarrow> Inl e
      | Inr d \<Rightarrow>
          (case parse_all w xs of
             Inl e \<Rightarrow> Inl e
           | Inr ds \<Rightarrow> Inr (d # ds)))"

definition step_earnings :: "world \<Rightarrow> string \<Rightarrow> ticker_source \<Rightarrow> fetch_state \<Rightarrow> fetch_state" where
  "step_earnings w ticker src st =
     (case tk_earnings_dates src of
        Inl e \<Rightarrow> add_log (EarningsFailed ticker e) st
      | Inr None \<Rightarrow> st
      | Inr (Some idx) \<Rightarrow>
          if idx = [] then st
          else (case parse_all w idx of
                  Inl e \<Rightarrow> add_log (EarningsFailed ticker e) st
                | Inr ds \<Rightarrow> st\<lparr>st_earnings_dates := st_earnings_dates st @ ds\<rparr>))"

text \<open>
  Source 3b, historical dividend payments: one pair per item whose date resolves.
  \<^verbatim>\<open>divs.empty\<close> on \<^verbatim>\<open>None\<close> raises \<^verbatim>\<open>AttributeError\<close>.
\<close>

fun dividends_loop ::
  "world \<Rightarrow> (pyvalue \<times> real) list \<Rightarrow> fetch_state \<Rightarrow> fetch_state \<times> exn option" where
  "dividends_loop w [] st = (st, None)"
| "dividends_loop w ((x, amount) # items) st =
     (case safe_parse_date w x of
        Inl e \<Rightarrow> (st, Some e)
      | Inr None \<Rightarrow> dividends_loop w items st
      | Inr (Some pay_date) \<Rightarrow>
          dividends_loop w items
            (st\<lparr>st_dividends_history := st_dividends_history st @ [(pay_date, amount)]\<rparr>))"

definition step_dividends :: "world \<Rightarrow> string \<Rightarrow> ticker_source \<Rightarrow> fetch_state \<Rightarrow> fetch_state" where
  "step_dividends w ticker src st =
     (case tk_dividends src of
        Inl e \<Rightarrow> add_log (DividendsFailed ticker e) st
      | Inr None \<Rightarrow> add_log (DividendsFailed ticker AttributeError) st
      | Inr (Some items) \<Rightarrow>
          if items = [] then st
          else (case dividends_loop w items st of
                  (st', None) \<Rightarrow> st'
                | (st', Some e) \<Rightarrow> add_log (DividendsFailed ticker e) st'))"

text \<open>
  Source 3c, historical ex-dividend dates: the index of the actions whose \<^verbatim>\<open>Dividends\<close>
  value is positive.
\<close>

fun actions_loop :: "world \<Rightarrow> pyvalue list \<Rightarrow> fetch_state \<Rightarrow> fetch_state \<times> exn option" where
  "actions_loop w [] st = (st, None)"
| "actions_loop w (x # xs) st =
     (case safe_parse_date w x of
        Inl e \<Rightarrow> (st, Some e)
      | Inr None \<Rightarrow> actions_loop w xs st
      | Inr (Some ex_date) \<Rightarrow>
          actions_loop w xs (st\<lparr>st_ex_dividend_dates := st_ex_dividend_dates st @ [ex_date]\<rparr>))"

definition step_actions :: "world \<Rightarrow> string \<Rightarrow> ticker_source \<Rightarrow> fetch_state \<Rightarrow> fetch_state" where
  "step_actions w ticker src st =
     (case tk_actions src of
        Inl e \<Rightarrow> add_log (ActionsFailed ticker e) st
      | Inr None \<Rightarrow> st
      | Inr (Some actions) \<Rightarrow>
          if has_dividends_column actions
          then (case actions_loop w (map fst (filter (\<lambda>r. 0 < snd r) (action_rows actions))) st of
                  (st', None) \<Rightarrow> st'
                | (st', Some e) \<Rightarrow> add_log (ActionsFailed ticker e) st')
          else st)"

text \<open>All sources read, in the order of the source, before the clean-up.\<close>

definition fetch_collect :: "world \<Rightarrow> string \<Rightarrow> ticker_source \<Rightarrow> fetch_state" where
  "fetch_collect w ticker src =
     step_actions w ticker src
       (step_dividends w ticker src
         (step_earnings w ticker src
           (step_calendar w ticker src
             (step_info ticker src initial_fetch_state))))"

text \<open>
  The clean-up: \<^verbatim>\<open>sorted(list(set([d for d in ... if d])))\<close> for the two date lists,
  \<^verbatim>\<open>sorted(list(set(...)), key=lambda x: x[0])\<close> for the dividend pairs (Python's sort is
  stable, as \<open>sort_key\<close> is).
\<close>

definition clean_up :: "world \<Rightarrow> fetch_state \<Rightarrow> ticker_info" where
  "clean_up w st =
     \<lparr>shortName = st_shortName st,
      dividends_history = sort_key fst (list_of_pair_set w (st_dividends_history st)),
      earnings_dates = sort (list_of_date_set w [d. Some d \<leftarrow> st_earnings_dates st]),
      ex_dividend_dates = sort (list_of_date_set w (st_ex_dividend_dates st))\<rparr>"

text \<open>
  The function: \<open>Inl e\<close> when \<^verbatim>\<open>yf.Ticker(ticker)\<close> raises \<open>e\<close>; otherwise the cleaned
  dictionary and the lines printed.
\<close>

definition fetch_info_for_ticker :: "world \<Rightarrow> string \<Rightarrow> exn + ticker_info \<times> log_entry list" where
  "fetch_info_for_ticker w ticker =
     (case yf_Ticker w ticker of
        Inl e \<Rightarrow> Inl e
      | Inr src \<Rightarrow>
          (let st = fetch_collect w ticker src
           in Inr (clean_up w st, st_log st)))"

text \<open>
  The claim's words for the pay date of the calendar: the amount, when the value is a
  number and strictly positive; the last known dividend value the general-info source
  leaves in \<^verbatim>\<open>last_div_amount\<close> (0.0 when the source failed or has no such key); the
  pairs recorded for a pay date \<open>d\<close>.
\<close>

fun positive_amount :: "pyvalue \<Rightarrow> real option" where
  "positive_amount (PyFloat (Finite a)) = (if 0 < a then Some a else None)"
| "positive_amount (PyInt n) = (if 0 < n then Some (round_double (of_int n)) else None)"
| "positive_amount _ = None"

definition info_last_dividend :: "ticker_source \<Rightarrow> pyvalue" where
  "info_last_dividend src =
     (case tk_info src of
        Inl e \<Rightarrow> PyFloat (Finite 0)
      | Inr info \<Rightarrow>
          (case info_lastDividendValue info of
             None \<Rightarrow> PyFloat (Finite 0)
           | Some v \<Rightarrow> v))"

definition pay_date_pairs :: "date \<Rightarrow> pyvalue \<Rightarrow> (date \<times> real) list" where
  "pay_date_pairs d v = (case positive_amount v of None \<Rightarrow> [] | Some a \<Rightarrow> [(d, a)])"

section \<open>Holdings event builder: \<^verbatim>\<open>build_events_from_holdings\<close>\<close>

text \<open>
  The lookup tables of the configuration; a decimal literal denotes the nearest double.
\<close>

definition FOREIGN_WITHHOLDING :: "string \<rightharpoonup> real" where
  "FOREIGN_WITHHOLDING =
     map_of [(''ES'', round_double (19 / 100)), (''US'', round_double (30 / 100)), (''GB'', 0),
             (''FR'', round_double (128 / 1000)), (''BR'', round_double (15 / 100)),
             (''SE'', round_double (30 / 100))]"

definition MARKET_CURRENCY :: "string \<rightharpoonup> string" where
  "MARKET_CURRENCY =
     map_of [(''BME'', ''EUR''), (''EPA'', ''EUR''), (''LON'', ''GBP''), (''STO'', ''SEK''),
             (''NASDAQ'', ''USD''), (''NYSE'', ''USD'')]"

text \<open>\<^verbatim>\<open>d.get(k, default)\<close>.\<close>

definition dict_get :: "('k \<rightharpoonup> 'v) \<Rightarrow> 'k \<Rightarrow> 'v \<Rightarrow> 'v" where
  "dict_get m k dflt = (case m k of None \<Rightarrow> dflt | Some v \<Rightarrow> v)"

text \<open>
  A calendar event as the builder makes it: the dictionary with the keys \<^verbatim>\<open>date\<close>,
  \<^verbatim>\<open>summary\<close>, \<^verbatim>\<open>description\<close>, \<^verbatim>\<open>color\<close> and \<^verbatim>\<open>ticker\<close>. The date is optional because the
  writer reads it with \<^verbatim>\<open>ev.get("date")\<close>.
\<close>

record event =
  ev_date :: "date option"
  ev_summary :: string
  ev_description :: string
  ev_color :: string
  ev_ticker :: string

text \<open>
  A cell of the holdings table read with \<^verbatim>\<open>dtype=str\<close>: a string, or NaN where the file
  has no value. A row has the cell of each column; \<open>None\<close> is a column the file does not
  have. The column \<^verbatim>\<open>cantidad\<close> is already converted to an integer (the source does it
  before the loop, coercing what is not a number to 0).
\<close>

datatype cell = CellNaN | CellStr string

record holding_row =
  row_ticker :: "cell option"
  row_cantidad :: int
  row_country :: "cell option"
  row_name :: "cell option"
  row_market :: "cell option"

text \<open>
  The state of the loop: the local variable \<^verbatim>\<open>ticker\<close> (\<open>None\<close> while it is unbound), the
  list \<^verbatim>\<open>events\<close> and the lines printed.
\<close>

record loop_state =
  ticker_var :: "string option"
  events :: "event list"
  loop_log :: "log_entry list"

text \<open>
  \<^verbatim>\<open>row.get(col, '').strip().upper()\<close>: the empty string when the column is absent,
  \<^verbatim>\<open>AttributeError\<close> on NaN (a float has no \<^verbatim>\<open>strip\<close>).
\<close>

definition cell_strip_upper :: "cell option \<Rightarrow> exn + string" where
  "cell_strip_upper c =
     (case c of
        None \<Rightarrow> Inr (upper_str (strip []))
      | Some CellNaN \<Rightarrow> Inl AttributeError
      | Some (CellStr s) \<Rightarrow> Inr (upper_str (strip s)))"

text \<open>
  \<^verbatim>\<open>row.get('name') or ticker\<close>, as the text an f-string shows for it: NaN is true and
  prints as \<^verbatim>\<open>nan\<close>.
\<close>

definition holding_name :: "cell option \<Rightarrow> string \<Rightarrow> string" where
  "holding_name c ticker =
     (case c of
        None \<Rightarrow> ticker
      | Some CellNaN \<Rightarrow> ''nan''
      | Some (CellStr s) \<Rightarrow> if s = [] then ticker else s)"

text \<open>The characters outside ASCII in the source's literals, in UTF-8.\<close>

definition emoji_calendar :: string where
  "emoji_calendar = utf8 [240, 159, 147, 133]"

definition emoji_dollar :: string where
  "emoji_dollar = utf8 [240, 159, 146, 181]"

definition emoji_moneybag :: string where
  "emoji_moneybag = utf8 [240, 159, 146, 176]"

definition en_dash :: string where
  "en_dash = utf8 [226, 128, 147]"

definition euro_sign :: string where
  "euro_sign = utf8 [226, 130, 172]"

definition a_acute :: string where
  "a_acute = utf8 [195, 161]"

definition n_tilde :: string where
  "n_tilde = utf8 [195, 177]"

text \<open>The three kinds of event.\<close>

definition ex_dividend_event :: "string \<Rightarrow> string \<Rightarrow> date \<Rightarrow> event" where
  "ex_dividend_event company_name ticker ex_date =
     \<lparr>ev_date = Some ex_date,
      ev_summary = emoji_calendar @ ''Ex-Div '' @ en_dash @ '' '' @ company_name,
      ev_description =
        company_name @ '' ('' @ ticker @ '')'' @ newline
          @ ''Fecha Ex-Dividendo (corte): '' @ isoformat ex_date,
      ev_color = ''orange'',
      ev_ticker = ticker\<rparr>"

definition dividend_event ::
  "world \<Rightarrow> string \<Rightarrow> string \<Rightarrow> int \<Rightarrow> string \<Rightarrow> real \<Rightarrow> real \<Rightarrow> real \<Rightarrow> date \<Rightarrow> real \<Rightarrow> event" where
  "dividend_event w company_name ticker cantidad currency scale fx rate_foreign div_date div_amount =
     (let gross_local = float_mul (float_mul div_amount (round_double (of_int cantidad))) scale;
          gross_eur = float_mul gross_local fx;
          calc = compute_net gross_eur rate_foreign SPANISH_RATE
      in \<lparr>ev_date = Some div_date,
          ev_summary =
            emoji_dollar @ ''Div ('' @ fmt_fixed w 2 (net_total calc) @ euro_sign @ '') ''
              @ en_dash @ '' '' @ company_name,
          ev_description =
            company_name @ '' ('' @ ticker @ '')'' @ newline
              @ ''Fecha de PAGO: '' @ isoformat div_date @ newline
              @ ''Cantidad: '' @ str_int cantidad @ '' acciones'' @ newline
              @ ''Div x Acc: '' @ fmt_fixed w 4 (float_mul div_amount scale) @ '' '' @ currency @ newline
              @ ''--- C'' @ a_acute @ ''lculo en EUR (FX: '' @ fmt_fixed w 4 fx @ '') ---'' @ newline
              @ ''NETO: '' @ fmt_fixed w 2 (net_total calc) @ '' EUR'' @ newline
              @ ''Bruto: '' @ fmt_fixed w 2 (gross_total calc) @ '' EUR'' @ newline
              @ ''Ret. Origen ('' @ fmt_float w (float_mul rate_foreign 100) @ ''%): -''
              @ fmt_fixed w 2 (withholding_foreign calc) @ '' EUR'' @ newline
              @ ''Ret. Espa'' @ n_tilde @ ''a (dif): -''
              @ fmt_fixed w 2 (spanish_tax_to_pay calc) @ '' EUR'',
          ev_color = ''green'',
          ev_ticker = ticker\<rparr>)"

definition earnings_event :: "string \<Rightarrow> string \<Rightarrow> date \<Rightarrow> event" where
  "earnings_event company_name ticker earn_date =
     \<lparr>ev_date = Some earn_date,
      ev_summary = emoji_moneybag @ ''Result '' @ en_dash @ '' '' @ company_name,
      ev_description =
        company_name @ '' ('' @ ticker @ '')'' @ newline
          @ ''Fecha de resultados: '' @ isoformat earn_date,
      ev_color = ''blue'',
      ev_ticker = ticker\<rparr>"

text \<open>
  The events of one holding, in the order the source appends them: ex-dividend dates,
  dividend pairs with a positive amount, earnings dates.
\<close>

definition holding_events ::
  "world \<Rightarrow> ticker_info \<Rightarrow> string \<Rightarrow> string \<Rightarrow> int \<Rightarrow> string \<Rightarrow> real \<Rightarrow> real \<Rightarrow> real \<Rightarrow> event list" where
  "holding_events w info company_name ticker cantidad currency scale fx rate_foreign =
     map (ex_dividend_event company_name ticker) (ex_dividend_dates info)
     @ map (\<lambda>(div_date, div_amount).
              dividend_event w company_name ticker cantidad currency scale fx rate_foreign
                div_date div_amount)
         (filter (\<lambda>(div_date, div_amount). div_amount \<noteq> 0 \<and> 0 < div_amount)
            (dividends_history info))
     @ map (earnings_event company_name ticker) (earnings_dates info)"

text \<open>
  The body of the \<^verbatim>\<open>try\<close> block for one row: the new state, and the exception that ended
  the block, if one did. \<^verbatim>\<open>continue\<close> ends the block without an exception.
\<close>

definition holding_try :: "world \<Rightarrow> holding_row \<Rightarrow> loop_state \<Rightarrow> loop_state \<times> exn option" where
  "holding_try w row st =
     (case row_ticker row of
        None \<Rightarrow> (st, Some KeyError)
      | Some CellNaN \<Rightarrow> (st, Some AttributeError)
      | Some (CellStr t) \<Rightarrow>
          (let ticker = strip t;
               st1 = st\<lparr>ticker_var := Some ticker\<rparr>
           in if ticker = [] then (st1, None)
              else
                (case cell_strip_upper (row_country row) of
                   Inl e \<Rightarrow> (st1, Some e)
                 | Inr country \<Rightarrow>
                     (let cantidad = row_cantidad row;
                          name = holding_name (row_name row) ticker
                      in (case cell_strip_upper (row_market row) of
                            Inl e \<Rightarrow> (st1, Some e)
                          | Inr market \<Rightarrow>
                              if cantidad = 0 then (st1, None)
                              else
                                (let st2 = st1\<lparr>loop_log := loop_log st1 @ [Processing ticker name]\<rparr>
                                 in (case fetch_info_for_ticker w ticker of
                                       Inl e \<Rightarrow> (st2, Some e)
                                     | Inr (info, fetch_log) \<Rightarrow>
                                         (let company_name =
                                                (case shortName info of
                                                   None \<Rightarrow> name
                                                 | Some s \<Rightarrow> if s = [] then name else s);
                                              currency = dict_get MARKET_CURRENCY market ''USD'';
                                              scale = (if market = ''LON'' then round_double (1 / 100) else 1);
                                              (fx, urls, fx_log) = get_fx_rate w (Some currency) EUR;
                                              rate_foreign =
                                                dict_get FOREIGN_WITHHOLDING country
                                                  DEFAULT_FOREIGN_WITHHOLDING
                                          in (st2\<lparr>loop_log := loop_log st2 @ fetch_log @ fx_log,
                                                 events := events st2
                                                   @ holding_events w info company_name ticker
                                                       cantidad currency scale fx rate_foreign\<rparr>,
                                              None)))))))))"

text \<open>
  The loop over the rows. The handler prints the local \<^verbatim>\<open>ticker\<close>: when the variable
  is still unbound, reading it raises \<^verbatim>\<open>UnboundLocalError\<close> inside the handler, and the
  function ends with that exception.
\<close>

fun holdings_loop :: "world \<Rightarrow> holding_row list \<Rightarrow> loop_state \<Rightarrow> exn + loop_state" where
  "holdings_loop w [] st = Inr st"
| "holdings_loop w (row # rows) st =
     (case holding_try w row st of
        (st', None) \<Rightarrow> holdings_loop w rows st'
      | (st', Some e) \<Rightarrow>
          (case ticker_var st' of
             None \<Rightarrow> Inl UnboundLocalError
           | Some t \<Rightarrow>
               holdings_loop w rows (st'\<lparr>loop_log := loop_log st' @ [HoldingError t e]\<rparr>)))"

definition build_events_from_holdings ::
  "world \<Rightarrow> holding_row list \<Rightarrow> exn + event list \<times> log_entry list" where
  "build_events_from_holdings w rows =
     (case holdings_loop w rows \<lparr>ticker_var = None, events = [], loop_log = []\<rparr> of
        Inl e \<Rightarrow> Inl e
      | Inr st \<Rightarrow> Inr (events st, loop_log st))"

section \<open>Calendar writer: \<^verbatim>\<open>write_ics_file\<close>\<close>

text \<open>
  An event of the output calendar, with the attributes the writer sets: name, begin (an
  all-day event: the date), description, uid and categories.
\<close>

record ics_event =
  ics_name :: string
  ics_begin :: date
  ics_description :: string
  ics_uid :: string
  ics_categories :: "string set"

text \<open>
  The identifier: \<^verbatim>\<open>f"{ticker}-{event_type}-{date_str}@mi.calendario.financiero.v2"\<close>.
\<close>

definition event_uid :: "string \<Rightarrow> string \<Rightarrow> date \<Rightarrow> string" where
  "event_uid ticker event_type d =
     ticker @ ''-'' @ event_type @ ''-'' @ isoformat d @ ''@mi.calendario.financiero.v2''"

text \<open>
  The first loop: the events with a date inside \<^verbatim>\<open>start_date <= event_date <= end_date\<close>,
  appended to \<^verbatim>\<open>filtered_events\<close>.
\<close>

fun filter_loop :: "date \<Rightarrow> date \<Rightarrow> event list \<Rightarrow> event list \<Rightarrow> event list" where
  "filter_loop start_date end_date [] filtered_events = filtered_events"
| "filter_loop start_date end_date (ev # evs) filtered_events =
     (case ev_date ev of
        None \<Rightarrow> filter_loop start_date end_date evs filtered_events
      | Some event_date \<Rightarrow>
          if start_date \<le> event_date \<and> event_date \<le> end_date
          then filter_loop start_date end_date evs (filtered_events @ [ev])
          else filter_loop start_date end_date evs filtered_events)"

text \<open>
  The second loop: one calendar event per filtered event, added to the calendar; an
  event without a date is skipped (\<^verbatim>\<open>continue\<close>). The calendar is the list of the events
  added, in the order of the calls of \<^verbatim>\<open>cal.events.add\<close>. (\<^verbatim>\<open>Calendar\<close> and \<^verbatim>\<open>Event\<close>
  belong to the \<^verbatim>\<open>ics\<close> library: how it stores and serialises the events added, and
  what it does with two added events that carry the same identifier, is not modelled.)
\<close>

fun add_loop :: "event list \<Rightarrow> ics_event list \<Rightarrow> ics_event list" where
  "add_loop [] cal = cal"
| "add_loop (ev # evs) cal =
     (case ev_date ev of
        None \<Rightarrow> add_loop evs cal
      | Some d \<Rightarrow>
          add_loop evs
            (cal @ [\<lparr>ics_name = ev_summary ev,
                     ics_begin = d,
                     ics_description = ev_description ev,
                     ics_uid = event_uid (ev_ticker ev) (ev_color ev) d,
                     ics_categories = {ev_color ev}\<rparr>]))"

text \<open>
  The function, on a file system that maps a path to the calendar written there: a file
  at \<^verbatim>\<open>out_path\<close> is removed, then the calendar is written. The result is the new file
  system and the lines printed.
\<close>

definition write_ics_file ::
  "(string \<rightharpoonup> ics_event list) \<Rightarrow> event list \<Rightarrow> string \<Rightarrow> date \<Rightarrow> date
     \<Rightarrow> (string \<rightharpoonup> ics_event list) \<times> log_entry list" where
  "write_ics_file fs events_list out_path start_date end_date =
     (let fs1 = (if fs out_path \<noteq> None then fs(out_path := None) else fs);
          filtered_events = filter_loop start_date end_date events_list [];
          cal = add_loop filtered_events []
      in (fs1(out_path \<mapsto> cal),
          [EventsFound out_path (length events_list),
           EventsSaved out_path (length filtered_events),
           CalendarUpdated out_path]))"

text \<open>The calendar \<^verbatim>\<open>write_ics_file\<close> leaves at \<^verbatim>\<open>out_path\<close>.\<close>

definition written_calendar ::
  "(string \<rightharpoonup> ics_event list) \<Rightarrow> event list \<Rightarrow> string \<Rightarrow> date \<Rightarrow> date \<Rightarrow> ics_event list" where
  "written_calendar fs events_list out_path start_date end_date =
     (case fst (write_ics_file fs events_list out_path start_date end_date) out_path of
        None \<Rightarrow> []
      | Some cal \<Rightarrow> cal)"

text \<open>
  The claim's words, to compare the loops with: an event is in the window when it has a
  date \<open>d\<close> with \<open>start \<le> d \<le> end\<close>; the calendar event the writer makes of an event
  with date \<open>d\<close>.
\<close>

definition in_window :: "date \<Rightarrow> date \<Rightarrow> event \<Rightarrow> bool" where
  "in_window start_date end_date ev =
     (case ev_date ev of
        None \<Rightarrow> False
      | Some d \<Rightarrow> start_date \<le> d \<and> d \<le> end_date)"

definition ics_of :: "event \<Rightarrow> date \<Rightarrow> ics_event" where
  "ics_of ev d =
     \<lparr>ics_name = ev_summary ev, ics_begin = d, ics_description = ev_description ev,
      ics_uid = event_uid (ev_ticker ev) (ev_color ev) d, ics_categories = {ev_color ev}\<rparr>"

definition emit_one :: "date \<Rightarrow> date \<Rightarrow> event \<Rightarrow> ics_event list" where
  "emit_one start_date end_date ev =
     (case ev_date ev of
        None \<Rightarrow> []
      | Some d \<Rightarrow> if start_date \<le> d \<and> d \<le> end_date then [ics_of ev d] else [])"

definition emitted :: "date \<Rightarrow> date \<Rightarrow> event list \<Rightarrow> ics_event list" where
  "emitted start_date end_date evs = concat (map (emit_one start_date end_date) evs)"

text \<open>The identifiers of the events written: those of the events in the window.\<close>

definition uid_one :: "date \<Rightarrow> date \<Rightarrow> event \<Rightarrow> string list" where
  "uid_one s e ev =
     (case ev_date ev of
        None \<Rightarrow> []
      | Some d \<Rightarrow> if s \<le> d \<and> d \<le> e then [event_uid (ev_ticker ev) (ev_color ev) d] else [])"

section \<open>Example data\<close>

text \<open>
  A concrete world and concrete inputs, on which the theorems below are instantiated.
  The ticker \<^verbatim>\<open>AAA\<close> has a calendar that announces the ex-dividend date 2024-03-15 and
  the pay date 2024-04-01; its history reports the same ex-dividend date and the same
  payment again, and an older payment. The exchange-rate service is offline.
\<close>

definition example_calendar_rows :: "(string \<times> pyvalue) list" where
  "example_calendar_rows =
     [(''Ex-Dividend Date'', PyDatetimeLike (Some (Date 2024 3 15))),
      (''Dividend Date'', PyDatetimeLike (Some (Date 2024 4 1)))]"

definition example_source :: ticker_source where
  "example_source =
     \<lparr>tk_info = Inr \<lparr>info_shortName = Some ''Acme'', info_longName = None,
                     info_lastDividendValue = Some (PyFloat (Finite (1 / 2)))\<rparr>,
      tk_calendar = Inr (CalDict example_calendar_rows),
      tk_earnings_dates = Inr None,
      tk_dividends = Inr (Some [(PyDatetimeLike (Some (Date 2024 4 1)), 1 / 2),
                                (PyDatetimeLike (Some (Date 2024 1 2)), 1 / 2)]),
      tk_actions = Inr (Some \<lparr>has_dividends_column = True,
                              action_rows = [(PyDatetimeLike (Some (Date 2024 3 15)), 1 / 2)]\<rparr>)\<rparr>"

definition example_world :: world where
  "example_world =
     \<lparr>fromtimestamp = (\<lambda>x. if x = 0 then Inr (Date 1970 1 1) else Inl OverflowError),
      parse = (\<lambda>s. if s = ''2024-03-15'' then Inr (Date 2024 3 15) else Inl ParserError),
      yf_Ticker = (\<lambda>t. if t = ''AAA'' then Inr example_source
                        else Inl (ProviderError ''unknown ticker'')),
      http_get_json = (\<lambda>u. Inl (ProviderError ''offline'')),
      list_of_date_set = remdups,
      list_of_pair_set = remdups,
      fmt_fixed = (\<lambda>n x. ''?''),
      fmt_float = (\<lambda>x. ''?'')\<rparr>"

text \<open>
  Five events of the ticker \<^verbatim>\<open>AAA\<close> for the window from 2024-03-01 to 2024-05-31: on the
  first day, on the last day, one day before, one day after, and without a date. The
  sixth event has the ticker, colour and date of the first, and another text.
\<close>

definition example_event :: "date option \<Rightarrow> string \<Rightarrow> event" where
  "example_event d label =
     \<lparr>ev_date = d, ev_summary = label, ev_description = label, ev_color = ''green'',
      ev_ticker = ''AAA''\<rparr>"

definition example_events :: "event list" where
  "example_events =
     [example_event (Some (Date 2024 3 1)) ''first day'',
      example_event (Some (Date 2024 5 31)) ''last day'',
      example_event (Some (Date 2024 2 29)) ''day before'',
      example_event (Some (Date 2024 6 1)) ''day after'',
      example_event None ''no date'',
      example_event (Some (Date 2024 3 1)) ''first day again'']"

section \<open>Properties of rounding\<close>

lemma round_half_even_of_int [simp]: "round_half_even (of_int k) = k"
  by (simp add: round_half_even_def)

lemma round_half_even_lower: "x - 1 / 2 \<le> of_int (round_half_even x)"
  unfolding round_half_even_def Let_def by (simp; linarith)

lemma round_half_even_upper: "of_int (round_half_even x) \<le> x + 1 / 2"
  unfolding round_half_even_def Let_def by (simp; linarith)

lemma round_half_even_zero [simp]: "round_half_even 0 = 0"
  by (simp add: round_half_even_def)

lemma round_half_even_floor_bounds:
  "\<lfloor>x\<rfloor> \<le> round_half_even x \<and> round_half_even x \<le> \<lfloor>x\<rfloor> + 1"
  by (simp add: round_half_even_def Let_def)

lemma round_half_even_mono:
  assumes "x \<le> y"
  shows "round_half_even x \<le> round_half_even y"
proof (cases "\<lfloor>x\<rfloor> = \<lfloor>y\<rfloor>")
  case True
  then show ?thesis
    using assms unfolding round_half_even_def Let_def by auto
next
  case False
  have "\<lfloor>x\<rfloor> \<le> \<lfloor>y\<rfloor>"
    using assms by (rule floor_mono)
  with False have "\<lfloor>x\<rfloor> + 1 \<le> \<lfloor>y\<rfloor>"
    by simp
  with round_half_even_floor_bounds [of x] round_half_even_floor_bounds [of y]
  show ?thesis by linarith
qed

lemma round_half_even_minus: "round_half_even (- x) = - round_half_even x"
proof (cases "of_int \<lfloor>x\<rfloor> = x")
  case True
  then obtain k :: int where x: "x = of_int k"
    by metis
  have "round_half_even (of_int (- k)) = - k"
    by (rule round_half_even_of_int)
  then show ?thesis
    by (simp add: x)
next
  case False
  then have c: "\<lceil>x\<rceil> = \<lfloor>x\<rfloor> + 1"
    by (simp add: ceiling_altdef)
  have f: "\<lfloor>- x\<rfloor> = - \<lfloor>x\<rfloor> - 1"
    using c by (simp add: ceiling_def)
  show ?thesis
    unfolding round_half_even_def Let_def f by auto
qed

text \<open>
  \<open>round_double\<close> is odd and monotone, keeps zero, and is within half a unit in the last
  place of its argument.
\<close>

lemma ulp_pos: "0 < ulp x"
  by (simp add: ulp_def)

lemma binade_minus [simp]: "binade (- x) = binade x"
  by (simp add: binade_def)

lemma ulp_minus [simp]: "ulp (- x) = ulp x"
  by (simp add: ulp_def)

lemma round_double_zero [simp]: "round_double 0 = 0"
  by (simp add: round_double_def)

lemma round_double_minus: "round_double (- x) = - round_double x"
  by (simp add: round_double_def round_half_even_minus)

lemma round_double_nonneg:
  assumes "0 \<le> x"
  shows "0 \<le> round_double x"
proof -
  have "0 \<le> x / ulp x"
    using assms ulp_pos [of x] by simp
  then have "round_half_even 0 \<le> round_half_even (x / ulp x)"
    by (rule round_half_even_mono)
  then have "0 \<le> (of_int (round_half_even (x / ulp x)) :: real)"
    by simp
  then show ?thesis
    using ulp_pos [of x] by (simp add: round_double_def)
qed

lemma round_double_nonpos:
  assumes "x \<le> 0"
  shows "round_double x \<le> 0"
  using round_double_nonneg [of "- x"] assms by (simp add: round_double_minus)

lemma binade_upper:
  assumes "x \<noteq> 0"
  shows "\<bar>x\<bar> < 2 powr of_int (binade x + 1)"
proof -
  have "log 2 \<bar>x\<bar> < of_int (\<lfloor>log 2 \<bar>x\<bar>\<rfloor> + 1)"
    by simp
  also have "\<dots> \<le> of_int (binade x + 1)"
    by (simp add: binade_def)
  finally have "2 powr log 2 \<bar>x\<bar> < 2 powr of_int (binade x + 1)"
    by simp
  then show ?thesis
    using assms by simp
qed

lemma binade_lower:
  assumes "x \<noteq> 0" and "binade x \<noteq> - 1022"
  shows "2 powr of_int (binade x) \<le> \<bar>x\<bar>"
proof -
  from assms(2) have "binade x = \<lfloor>log 2 \<bar>x\<bar>\<rfloor>"
    by (simp add: binade_def max_def split: if_splits)
  then have "of_int (binade x) \<le> log 2 \<bar>x\<bar>"
    by simp
  then have "2 powr of_int (binade x) \<le> 2 powr log 2 \<bar>x\<bar>"
    by simp
  then show ?thesis
    using assms(1) by simp
qed

lemma binade_mono:
  assumes "x \<noteq> 0" and "\<bar>x\<bar> \<le> \<bar>y\<bar>"
  shows "binade x \<le> binade y"
proof -
  have "log 2 \<bar>x\<bar> \<le> log 2 \<bar>y\<bar>"
    using assms by simp
  then have "\<lfloor>log 2 \<bar>x\<bar>\<rfloor> \<le> \<lfloor>log 2 \<bar>y\<bar>\<rfloor>"
    by (rule floor_mono)
  then show ?thesis
    by (simp add: binade_def)
qed

lemma ulp_times: "2 powr of_int (binade x + 1) = 2 ^ 53 * ulp x"
proof -
  have e: "(of_int (binade x + 1) :: real) = 53 + of_int (binade x - 52)"
    by simp
  show ?thesis
    unfolding e ulp_def powr_add by simp
qed

lemma ulp_times_lower: "2 powr of_int (binade x) = 2 ^ 52 * ulp x"
proof -
  have e: "(of_int (binade x) :: real) = 52 + of_int (binade x - 52)"
    by simp
  have "2 powr (52 + of_int (binade x - 52)) = 2 ^ 52 * ulp x"
    unfolding ulp_def powr_add by simp
  then show ?thesis
    by (simp only: e [symmetric])
qed

lemma round_double_upper:
  assumes "0 < x"
  shows "round_double x \<le> 2 powr of_int (binade x + 1)"
proof -
  have "\<bar>x\<bar> < 2 powr of_int (binade x + 1)"
    using assms by (intro binade_upper) simp
  then have "\<bar>x\<bar> < 2 ^ 53 * ulp x"
    unfolding ulp_times .
  then have "x < 2 ^ 53 * ulp x"
    by linarith
  then have "x / ulp x \<le> 2 ^ 53"
    using ulp_pos [of x] by (simp add: pos_divide_le_eq)
  then have "round_half_even (x / ulp x) \<le> round_half_even (of_int (2 ^ 53))"
    by (intro round_half_even_mono) simp
  then have "round_half_even (x / ulp x) \<le> 2 ^ 53"
    by (simp only: round_half_even_of_int)
  then have "(of_int (round_half_even (x / ulp x)) :: real) \<le> of_int (2 ^ 53)"
    by (simp only: of_int_le_iff)
  then have "of_int (round_half_even (x / ulp x)) * ulp x \<le> 2 ^ 53 * ulp x"
    using ulp_pos [of x] by simp
  then have "of_int (round_half_even (x / ulp x)) * ulp x \<le> 2 powr of_int (binade x + 1)"
    unfolding ulp_times .
  then show ?thesis
    using assms by (simp add: round_double_def)
qed

lemma round_double_lower:
  assumes "0 < x" and "binade x \<noteq> - 1022"
  shows "2 powr of_int (binade x) \<le> round_double x"
proof -
  have "2 powr of_int (binade x) \<le> \<bar>x\<bar>"
    using assms by (intro binade_lower) simp_all
  then have "2 ^ 52 * ulp x \<le> \<bar>x\<bar>"
    unfolding ulp_times_lower .
  then have "2 ^ 52 * ulp x \<le> x"
    using assms(1) by linarith
  then have "2 ^ 52 \<le> x / ulp x"
    using ulp_pos [of x] by (simp add: pos_le_divide_eq)
  then have "round_half_even (of_int (2 ^ 52)) \<le> round_half_even (x / ulp x)"
    by (intro round_half_even_mono) simp
  then have "2 ^ 52 \<le> round_half_even (x / ulp x)"
    by (simp only: round_half_even_of_int)
  then have "(of_int (2 ^ 52) :: real) \<le> of_int (round_half_even (x / ulp x))"
    by (simp only: of_int_le_iff)
  then have "2 ^ 52 * ulp x \<le> of_int (round_half_even (x / ulp x)) * ulp x"
    using ulp_pos [of x] by simp
  then have "2 powr of_int (binade x) \<le> of_int (round_half_even (x / ulp x)) * ulp x"
    unfolding ulp_times_lower .
  then show ?thesis
    using assms by (simp add: round_double_def)
qed

lemma round_double_mono_pos:
  assumes "0 < x" and "x \<le> y"
  shows "round_double x \<le> round_double y"
proof (cases "binade x = binade y")
  case True
  then have u: "ulp x = ulp y"
    by (simp add: ulp_def)
  have "x / ulp y \<le> y / ulp y"
    using assms ulp_pos [of y] by (simp add: divide_right_mono)
  then have "round_half_even (x / ulp y) \<le> round_half_even (y / ulp y)"
    by (rule round_half_even_mono)
  then have "(of_int (round_half_even (x / ulp y)) :: real) \<le> of_int (round_half_even (y / ulp y))"
    by simp
  then have "of_int (round_half_even (x / ulp y)) * ulp y \<le> of_int (round_half_even (y / ulp y)) * ulp y"
    using ulp_pos [of y] by simp
  then show ?thesis
    using assms by (simp add: round_double_def u)
next
  case False
  have "binade x \<le> binade y"
    using assms by (intro binade_mono) simp_all
  with False have lt: "binade x + 1 \<le> binade y"
    by simp
  then have "binade y \<noteq> - 1022"
    by (simp add: binade_def)
  with assms have "2 powr of_int (binade y) \<le> round_double y"
    by (intro round_double_lower) simp_all
  moreover have "(2::real) powr of_int (binade x + 1) \<le> 2 powr of_int (binade y)"
    using lt by simp
  moreover have "round_double x \<le> 2 powr of_int (binade x + 1)"
    using assms(1) by (rule round_double_upper)
  ultimately show ?thesis
    by linarith
qed

lemma round_double_mono:
  assumes "x \<le> y"
  shows "round_double x \<le> round_double y"
proof -
  consider "0 < x" | "x \<le> 0" "0 \<le> y" | "y < 0"
    by linarith
  then show ?thesis
  proof cases
    case 1
    then show ?thesis
      using assms by (rule round_double_mono_pos)
  next
    case 2
    then show ?thesis
      using round_double_nonpos [of x] round_double_nonneg [of y] by linarith
  next
    case 3
    then have "round_double (- y) \<le> round_double (- x)"
      using assms by (intro round_double_mono_pos) simp_all
    then show ?thesis
      by (simp add: round_double_minus)
  qed
qed

lemma round_double_error: "\<bar>round_double x - x\<bar> \<le> ulp x / 2"
proof (cases "x = 0")
  case True
  then show ?thesis
    using ulp_pos [of x] by simp
next
  case False
  define t where "t = x / ulp x"
  define a :: real where "a = of_int (round_half_even t)"
  have tx: "t * ulp x = x"
    using ulp_pos [of x] by (simp add: t_def)
  have "\<bar>a - t\<bar> \<le> 1 / 2"
    unfolding a_def using round_half_even_lower [of t] round_half_even_upper [of t] by linarith
  then have "\<bar>a - t\<bar> * ulp x \<le> 1 / 2 * ulp x"
    using ulp_pos [of x] by (intro mult_right_mono) simp_all
  moreover have "\<bar>(a - t) * ulp x\<bar> = \<bar>a - t\<bar> * \<bar>ulp x\<bar>"
    by (rule abs_mult)
  moreover have "\<bar>ulp x\<bar> = ulp x"
    using ulp_pos [of x] by simp
  moreover have "(a - t) * ulp x = a * ulp x - x"
    by (simp only: left_diff_distrib tx)
  ultimately have "\<bar>a * ulp x - x\<bar> \<le> ulp x / 2"
    by simp
  then show ?thesis
    using False by (simp add: round_double_def t_def a_def)
qed

lemma ulp_bound:
  assumes "x \<noteq> 0"
  shows "ulp x \<le> \<bar>x\<bar> / 2 ^ 52 + 1 / 2 ^ 1074"
proof (cases "binade x = - 1022")
  case True
  then have "ulp x = 2 powr (- 1074)"
    by (simp add: ulp_def)
  then have "ulp x = 1 / 2 ^ 1074"
    by (simp add: powr_neg_numeral)
  moreover have "0 \<le> \<bar>x\<bar> / 2 ^ 52"
    by simp
  ultimately show ?thesis
    by linarith
next
  case False
  with assms have "2 powr of_int (binade x) \<le> \<bar>x\<bar>"
    by (rule binade_lower)
  then have "2 ^ 52 * ulp x \<le> \<bar>x\<bar>"
    unfolding ulp_times_lower .
  then have "ulp x \<le> \<bar>x\<bar> / 2 ^ 52"
    by (simp add: pos_le_divide_eq mult.commute)
  moreover have "(0::real) \<le> 1 / 2 ^ 1074"
    by simp
  ultimately show ?thesis
    by linarith
qed

lemma round_double_rel_error: "\<bar>round_double x - x\<bar> \<le> \<bar>x\<bar> / 2 ^ 53 + 1 / 2 ^ 1075"
proof (cases "x = 0")
  case True
  then show ?thesis
    by simp
next
  case False
  then have "ulp x \<le> \<bar>x\<bar> / 2 ^ 52 + 1 / 2 ^ 1074"
    by (rule ulp_bound)
  then have "ulp x / 2 \<le> \<bar>x\<bar> / 2 ^ 53 + 1 / 2 ^ 1075"
    by simp
  with round_double_error [of x] show ?thesis
    by linarith
qed

text \<open>
  \<open>round_double\<close> on a number whose binade is known: for \<^verbatim>\<open>2^-n <= |x| < 2^(1-n)\<close> and
  for \<^verbatim>\<open>2^n <= |x| < 2^(n+1)\<close>. The concrete doubles below are computed with these.
\<close>

lemma round_double_eval:
  assumes "- 1022 \<le> e" and "2 powr of_int e \<le> \<bar>x\<bar>" and "\<bar>x\<bar> < 2 powr of_int (e + 1)"
  shows "round_double x = of_int (round_half_even (x / 2 powr of_int (e - 52))) * 2 powr of_int (e - 52)"
proof -
  have "0 < (2::real) powr of_int e"
    by simp
  with assms(2) have x: "0 < \<bar>x\<bar>"
    by linarith
  then have "\<lfloor>log 2 \<bar>x\<bar>\<rfloor> = e"
    using assms(2,3) by (simp add: floor_log_eq_powr_iff)
  then have "binade x = e"
    using assms(1) by (simp add: binade_def)
  then show ?thesis
    using x by (simp add: round_double_def ulp_def)
qed

lemma round_double_eval_neg:
  assumes "n \<le> 1022" and "1 \<le> \<bar>x\<bar> * 2 ^ n" and "\<bar>x\<bar> * 2 ^ n < 2"
  shows "round_double x = of_int (round_half_even (x * 2 ^ (n + 52))) / 2 ^ (n + 52)"
proof -
  have p: "(2::real) powr of_int (- int m) = 1 / 2 ^ m" for m
    by (simp add: powr_minus powr_realpow inverse_eq_divide)
  have a: "- 1022 \<le> - int n"
    using assms(1) by simp
  have b: "2 powr of_int (- int n) \<le> \<bar>x\<bar>"
    using assms(2) unfolding p by (simp add: pos_divide_le_eq)
  have "(2::real) powr of_int (- int n + 1) = 2 powr (of_int (- int n) + 1)"
    by simp
  also have "\<dots> = 2 powr of_int (- int n) * 2 powr 1"
    by (rule powr_add)
  also have "\<dots> = 2 / 2 ^ n"
    unfolding p by simp
  finally have c: "\<bar>x\<bar> < 2 powr of_int (- int n + 1)"
    using assms(3) by (simp add: pos_less_divide_eq)
  have i: "- int n - 52 = - int (n + 52)"
    by simp
  have d: "(2::real) powr of_int (- int n - 52) = 1 / 2 ^ (n + 52)"
    unfolding i by (rule p)
  show ?thesis
    using round_double_eval [OF a b c] unfolding d by simp
qed

lemma round_double_eval_pos:
  assumes "n \<le> 52" and "2 ^ n \<le> \<bar>x\<bar>" and "\<bar>x\<bar> < 2 * 2 ^ n"
  shows "round_double x = of_int (round_half_even (x * 2 ^ (52 - n))) / 2 ^ (52 - n)"
proof -
  have p: "(2::real) powr of_int (- int m) = 1 / 2 ^ m" for m
    by (simp add: powr_minus powr_realpow inverse_eq_divide)
  have q: "(2::real) powr of_int (int m) = 2 ^ m" for m
    by (simp add: powr_realpow)
  have a: "- 1022 \<le> int n"
    by simp
  have b: "2 powr of_int (int n) \<le> \<bar>x\<bar>"
    using assms(2) unfolding q .
  have "(2::real) powr of_int (int n + 1) = 2 powr of_int (int (Suc n))"
    by (simp add: add.commute)
  also have "\<dots> = 2 * 2 ^ n"
    unfolding q by simp
  finally have c: "\<bar>x\<bar> < 2 powr of_int (int n + 1)"
    using assms(3) by simp
  have i: "int n - 52 = - int (52 - n)"
    using assms(1) by simp
  have d: "(2::real) powr of_int (int n - 52) = 1 / 2 ^ (52 - n)"
    unfolding i by (rule p)
  show ?thesis
    using round_double_eval [OF a b c] unfolding d by simp
qed

lemma is_double_55: "is_double 55"
  unfolding is_double_def using round_double_eval_pos [of 5 55]
  by (simp add: round_half_even_def Let_def)

lemma is_double_1: "is_double 1"
  unfolding is_double_def using round_double_eval_pos [of 0 1]
  by (simp add: round_half_even_def Let_def)

lemma round_double_1: "round_double 1 = 1"
  using is_double_1 by (simp add: is_double_def)

lemma rate_literal_bounds:
  assumes "0 \<le> r" and "r \<le> 1"
  shows "0 \<le> round_double r \<and> round_double r \<le> 1"
  using round_double_nonneg [OF assms(1)] round_double_mono [OF assms(2)]
  by (simp add: round_double_1)

lemma round_decimal_zero [simp]: "round_decimal 0 n = 0"
  by (simp add: round_decimal_def)

lemma round_decimal_mono:
  assumes "x \<le> y"
  shows "round_decimal x n \<le> round_decimal y n"
proof -
  have "x * 10 ^ n \<le> y * 10 ^ n"
    using assms by (rule mult_right_mono) simp
  then have "round_half_even (x * 10 ^ n) \<le> round_half_even (y * 10 ^ n)"
    by (rule round_half_even_mono)
  then have "(of_int (round_half_even (x * 10 ^ n)) :: real)
      \<le> of_int (round_half_even (y * 10 ^ n))"
    by simp
  then show ?thesis
    unfolding round_decimal_def by (rule divide_right_mono) simp
qed

lemma py_round_zero [simp]: "py_round 0 n = 0"
  by (simp add: py_round_def)

lemma py_round_mono:
  assumes "x \<le> y"
  shows "py_round x n \<le> py_round y n"
  unfolding py_round_def using assms by (intro round_double_mono round_decimal_mono)

lemma py_round_nonneg: "0 \<le> x \<Longrightarrow> 0 \<le> py_round x n"
  using py_round_mono [of 0 x n] by simp

section \<open>Properties of \<^verbatim>\<open>compute_net\<close>\<close>

lemma compute_net_body_simps:
  "l_withholding_foreign (compute_net_body g f d) = float_mul g f"
  "l_spanish_theoretical (compute_net_body g f d) = float_mul g d"
  "l_spanish_to_pay (compute_net_body g f d) = max 0 (float_sub (float_mul g d) (float_mul g f))"
  "l_net_total (compute_net_body g f d)
     = float_sub (float_sub g (float_mul g f)) (max 0 (float_sub (float_mul g d) (float_mul g f)))"
  by (simp_all add: compute_net_body_def Let_def)

lemma compute_net_simps:
  "gross_total (compute_net g f d) = py_round g 6"
  "withholding_foreign (compute_net g f d) = py_round (l_withholding_foreign (compute_net_body g f d)) 6"
  "spanish_tax_to_pay (compute_net g f d) = py_round (l_spanish_to_pay (compute_net_body g f d)) 6"
  "net_total (compute_net g f d) = py_round (l_net_total (compute_net_body g f d)) 6"
  by (simp_all add: compute_net_def Let_def)

lemma float_mul_bounds:
  assumes "is_double g" and "0 \<le> g" and "0 \<le> r" and "r \<le> 1"
  shows "0 \<le> float_mul g r" and "float_mul g r \<le> g" and "\<bar>g * r\<bar> \<le> g"
proof -
  have rg: "round_double g = g"
    using assms(1) by (simp add: is_double_def)
  have lo: "0 \<le> g * r"
    using assms by simp
  have hi: "g * r \<le> g"
    using assms by (simp add: mult_left_le)
  show "0 \<le> float_mul g r"
    unfolding float_mul_def using lo by (rule round_double_nonneg)
  have "round_double (g * r) \<le> round_double g"
    using hi by (rule round_double_mono)
  then show "float_mul g r \<le> g"
    by (simp add: float_mul_def rg)
  show "\<bar>g * r\<bar> \<le> g"
    using lo hi by simp
qed

lemma float_sub_bounds:
  assumes "is_double g" and "0 \<le> y" and "y \<le> x" and "x \<le> g"
  shows "0 \<le> float_sub x y" and "float_sub x y \<le> g" and "\<bar>x - y\<bar> \<le> g"
proof -
  have rg: "round_double g = g"
    using assms(1) by (simp add: is_double_def)
  have lo: "0 \<le> x - y"
    using assms by simp
  have hi: "x - y \<le> g"
    using assms by simp
  show "0 \<le> float_sub x y"
    unfolding float_sub_def using lo by (rule round_double_nonneg)
  have "round_double (x - y) \<le> round_double g"
    using hi by (rule round_double_mono)
  then show "float_sub x y \<le> g"
    by (simp add: float_sub_def rg)
  show "\<bar>x - y\<bar> \<le> g"
    using lo hi by simp
qed

lemma round_double_error_le:
  assumes "\<bar>x\<bar> \<le> g"
  shows "\<bar>round_double x - x\<bar> \<le> g / 2 ^ 53 + 1 / 2 ^ 1075"
proof -
  have "\<bar>x\<bar> / 2 ^ 53 \<le> g / 2 ^ 53"
    using assms by (simp add: divide_right_mono)
  with round_double_rel_error [of x] show ?thesis
    by linarith
qed

lemma topup_zero:
  assumes "0 \<le> g" and "d \<le> f"
  shows "max 0 (float_sub (float_mul g d) (float_mul g f)) = 0"
proof -
  have "g * d \<le> g * f"
    using assms(2,1) by (rule mult_left_mono)
  then have "float_mul g d \<le> float_mul g f"
    unfolding float_mul_def by (rule round_double_mono)
  then have "float_mul g d - float_mul g f \<le> 0"
    by simp
  then have "float_sub (float_mul g d) (float_mul g f) \<le> 0"
    unfolding float_sub_def by (rule round_double_nonpos)
  then show ?thesis
    by simp
qed

text \<open>
  For a gross amount that is a double and not negative, and rates in \<open>[0, 1]\<close>: the net
  amount before rounding lies between \<open>0\<close> and the gross amount, and is within four
  rounding errors of \<open>g * (1 - max f d)\<close>. Each of the five operations of the body rounds
  a number of magnitude at most \<open>g\<close>; the error of the foreign withholding cancels when
  the domestic top-up is positive.
\<close>

lemma net_bounds:
  assumes "is_double g" and "0 \<le> g" and "0 \<le> f" and "f \<le> 1" and "0 \<le> d" and "d \<le> 1"
  shows "0 \<le> l_net_total (compute_net_body g f d)"
    and "l_net_total (compute_net_body g f d) \<le> g"
    and "\<bar>l_net_total (compute_net_body g f d) - g * (1 - max f d)\<bar>
           \<le> 4 * (g / 2 ^ 53 + 1 / 2 ^ 1075)"
proof -
  define B where "B = g / 2 ^ 53 + 1 / 2 ^ 1075"
  define wf where "wf = float_mul g f"
  define st where "st = float_mul g d"
  define s where "s = float_sub st wf"
  define sp where "sp = max 0 s"
  define a where "a = float_sub g wf"
  define nt where "nt = float_sub a sp"
  have nt: "l_net_total (compute_net_body g f d) = nt"
    by (simp add: compute_net_body_simps nt_def a_def sp_def s_def st_def wf_def)
  have B0: "0 \<le> B"
    using assms(2) by (simp add: B_def)
  have g_le: "g \<le> g"
    by simp
  have wf0: "0 \<le> wf" and wfg: "wf \<le> g" and gf: "\<bar>g * f\<bar> \<le> g"
    unfolding wf_def using float_mul_bounds [OF assms(1,2,3,4)] by blast+
  have st0: "0 \<le> st" and stg: "st \<le> g" and gd: "\<bar>g * d\<bar> \<le> g"
    unfolding st_def using float_mul_bounds [OF assms(1,2,5,6)] by blast+
  have a0: "0 \<le> a" and ag: "a \<le> g" and gwf: "\<bar>g - wf\<bar> \<le> g"
    unfolding a_def using float_sub_bounds [OF assms(1) wf0 wfg g_le] by blast+
  have "st - wf \<le> g - wf"
    using stg by simp
  then have sa: "s \<le> a"
    unfolding s_def a_def float_sub_def by (rule round_double_mono)
  have sp0: "0 \<le> sp"
    by (simp add: sp_def)
  have spa: "sp \<le> a"
    using sa a0 by (simp add: sp_def)
  have nt0: "0 \<le> nt" and ntg: "nt \<le> g" and asp: "\<bar>a - sp\<bar> \<le> g"
    unfolding nt_def using float_sub_bounds [OF assms(1) sp0 spa ag] by blast+
  show "0 \<le> l_net_total (compute_net_body g f d)"
    using nt0 by (simp add: nt)
  show "l_net_total (compute_net_body g f d) \<le> g"
    using ntg by (simp add: nt)
  have e1: "\<bar>wf - g * f\<bar> \<le> B"
    unfolding wf_def float_mul_def B_def using gf by (rule round_double_error_le)
  have e2: "\<bar>st - g * d\<bar> \<le> B"
    unfolding st_def float_mul_def B_def using gd by (rule round_double_error_le)
  have e4: "\<bar>a - (g - wf)\<bar> \<le> B"
    unfolding a_def float_sub_def B_def using gwf by (rule round_double_error_le)
  have e5: "\<bar>nt - (a - sp)\<bar> \<le> B"
    unfolding nt_def float_sub_def B_def using asp by (rule round_double_error_le)
  have "\<bar>nt - g * (1 - max f d)\<bar> \<le> 4 * B"
  proof (cases "d \<le> f")
    case True
    have "sp = 0"
      unfolding sp_def s_def st_def wf_def using assms(2) True by (rule topup_zero)
    moreover have "g * (1 - max f d) = g - g * f"
      using True by (simp add: max_def algebra_simps)
    ultimately show ?thesis
      using e1 e4 e5 B0 by linarith
  next
    case False
    then have "g * f \<le> g * d"
      using assms(2) by (intro mult_left_mono) simp_all
    then have wfst: "wf \<le> st"
      unfolding wf_def st_def float_mul_def by (rule round_double_mono)
    have s0: "0 \<le> s" and "\<bar>st - wf\<bar> \<le> g"
      unfolding s_def using float_sub_bounds [OF assms(1) wf0 wfst stg] by blast+
    then have e3: "\<bar>s - (st - wf)\<bar> \<le> B"
      unfolding s_def float_sub_def B_def by (intro round_double_error_le)
    have "sp = s"
      using s0 by (simp add: sp_def)
    moreover have "g * (1 - max f d) = g - g * d"
      using False by (simp add: max_def algebra_simps)
    ultimately show ?thesis
      using e2 e3 e4 e5 by linarith
  qed
  then show "\<bar>l_net_total (compute_net_body g f d) - g * (1 - max f d)\<bar>
           \<le> 4 * (g / 2 ^ 53 + 1 / 2 ^ 1075)"
    by (simp only: nt B_def)
qed

text \<open>
  In exact arithmetic the net amount is \<open>g * (1 - max f d)\<close>.
\<close>

lemma net_closed_form_exact:
  fixes g f d :: real
  assumes "0 \<le> g"
  shows "g - g * f - max 0 (g * d - g * f) = g * (1 - max f d)"
proof (cases "f \<le> d")
  case True
  from True assms have "g * f \<le> g * d"
    by (rule mult_left_mono)
  then show ?thesis
    using True by (simp add: max_def algebra_simps)
next
  case False
  then have "d \<le> f"
    by simp
  from this assms have "g * d \<le> g * f"
    by (rule mult_left_mono)
  then show ?thesis
    using False by (simp add: max_def algebra_simps)
qed

text \<open>
  Claim C1. For a gross amount \<open>g \<ge> 0\<close> (a double) and both rates in \<open>[0, 1]\<close>, the values
  \<^verbatim>\<open>compute_net\<close> computes before rounding satisfy, with the products and differences of
  double arithmetic: foreign withholding \<open>= g * foreign\<close>, domestic top-up
  \<open>= max 0 (g * domestic - g * foreign)\<close>, net \<open>= (g -\<close> foreign withholding\<open>) -\<close> top-up,
  top-up \<open>\<ge> 0\<close> and net \<open>\<le> g\<close>. Each of the four returned fields is the corresponding
  value rounded to 6 decimal places by \<^verbatim>\<open>round\<close>; the returned fields satisfy
  top-up \<open>\<ge> 0\<close> and net \<open>\<le>\<close> gross. The identity net \<open>=\<close> gross \<open>-\<close> withholding \<open>-\<close> top-up
  is not claimed of the returned fields: it does not survive the rounding (see the
  counterexample below).
\<close>

theorem compute_net_breakdown:
  assumes "is_double g" and "0 \<le> g" and "0 \<le> f" and "f \<le> 1" and "0 \<le> d" and "d \<le> 1"
  shows "l_withholding_foreign (compute_net_body g f d) = float_mul g f
    \<and> l_spanish_to_pay (compute_net_body g f d)
        = max 0 (float_sub (float_mul g d) (float_mul g f))
    \<and> l_net_total (compute_net_body g f d)
        = float_sub (float_sub g (l_withholding_foreign (compute_net_body g f d)))
            (l_spanish_to_pay (compute_net_body g f d))
    \<and> 0 \<le> l_spanish_to_pay (compute_net_body g f d)
    \<and> l_net_total (compute_net_body g f d) \<le> g
    \<and> gross_total (compute_net g f d) = py_round g 6
    \<and> withholding_foreign (compute_net g f d)
        = py_round (l_withholding_foreign (compute_net_body g f d)) 6
    \<and> spanish_tax_to_pay (compute_net g f d)
        = py_round (l_spanish_to_pay (compute_net_body g f d)) 6
    \<and> net_total (compute_net g f d) = py_round (l_net_total (compute_net_body g f d)) 6
    \<and> 0 \<le> spanish_tax_to_pay (compute_net g f d)
    \<and> net_total (compute_net g f d) \<le> gross_total (compute_net g f d)"
proof -
  have sp: "0 \<le> l_spanish_to_pay (compute_net_body g f d)"
    by (simp add: compute_net_body_simps)
  have nt: "l_net_total (compute_net_body g f d) \<le> g"
    using assms by (rule net_bounds(2))
  have "0 \<le> py_round (l_spanish_to_pay (compute_net_body g f d)) 6"
    using sp by (rule py_round_nonneg)
  then have spf: "0 \<le> spanish_tax_to_pay (compute_net g f d)"
    by (simp add: compute_net_simps)
  have "py_round (l_net_total (compute_net_body g f d)) 6 \<le> py_round g 6"
    using nt by (rule py_round_mono)
  then have ntf: "net_total (compute_net g f d) \<le> gross_total (compute_net g f d)"
    by (simp add: compute_net_simps)
  show ?thesis
    using sp nt spf ntf by (simp add: compute_net_simps compute_net_body_simps)
qed

theorem compute_net_breakdown_witness:
  "is_double 55 \<and> (0::real) \<le> 55
   \<and> 0 \<le> round_double (3 / 10) \<and> round_double (3 / 10) \<le> 1
   \<and> 0 \<le> SPANISH_RATE \<and> SPANISH_RATE \<le> 1
   \<and> l_net_total (compute_net_body 55 (round_double (3 / 10)) SPANISH_RATE) \<le> 55
   \<and> 0 \<le> spanish_tax_to_pay (compute_net 55 (round_double (3 / 10)) SPANISH_RATE)
   \<and> net_total (compute_net 55 (round_double (3 / 10)) SPANISH_RATE)
        \<le> gross_total (compute_net 55 (round_double (3 / 10)) SPANISH_RATE)"
proof -
  have g: "(0::real) \<le> 55"
    by simp
  have f: "0 \<le> round_double (3 / 10) \<and> round_double (3 / 10) \<le> 1"
    by (rule rate_literal_bounds) simp_all
  have d: "0 \<le> SPANISH_RATE \<and> SPANISH_RATE \<le> 1"
    unfolding SPANISH_RATE_def by (rule rate_literal_bounds) simp_all
  from f have f0: "0 \<le> round_double (3 / 10)" and f1: "round_double (3 / 10) \<le> 1"
    by blast+
  from d have d0: "0 \<le> SPANISH_RATE" and d1: "SPANISH_RATE \<le> 1"
    by blast+
  note t = compute_net_breakdown [OF is_double_55 g f0 f1 d0 d1]
  from t have "l_net_total (compute_net_body 55 (round_double (3 / 10)) SPANISH_RATE) \<le> 55"
    by blast
  moreover from t have "0 \<le> spanish_tax_to_pay (compute_net 55 (round_double (3 / 10)) SPANISH_RATE)"
    by blast
  moreover from t have "net_total (compute_net 55 (round_double (3 / 10)) SPANISH_RATE)
        \<le> gross_total (compute_net 55 (round_double (3 / 10)) SPANISH_RATE)"
    by blast
  ultimately show ?thesis
    using is_double_55 g f d by blast
qed

text \<open>
  The returned fields do not satisfy net \<open>=\<close> gross \<open>-\<close> withholding \<open>-\<close> top-up:
  \<^verbatim>\<open>compute_net(0.000001, 0.3, 0.6)\<close> computes the withholding \<^verbatim>\<open>3e-07\<close>, the top-up
  \<^verbatim>\<open>3e-07\<close> and the net \<^verbatim>\<open>4e-07\<close>, and returns the gross \<^verbatim>\<open>1e-06\<close> and \<open>0\<close> for the
  three other fields. The three arguments are the doubles the literals denote.
\<close>

theorem compute_net_rounded_identity_counterexample:
  "round_double (1 / 10 ^ 6) = 4722366482869645 / 2 ^ 72
   \<and> round_double (3 / 10) = 5404319552844595 / 2 ^ 54
   \<and> round_double (6 / 10) = 5404319552844595 / 2 ^ 53
   \<and> l_withholding_foreign (compute_net_body (4722366482869645 / 2 ^ 72) (5404319552844595 / 2 ^ 54) (5404319552844595 / 2 ^ 53)) = 2833419889721787 / 2 ^ 73
   \<and> l_spanish_to_pay (compute_net_body (4722366482869645 / 2 ^ 72) (5404319552844595 / 2 ^ 54) (5404319552844595 / 2 ^ 53)) = 2833419889721787 / 2 ^ 73
   \<and> l_net_total (compute_net_body (4722366482869645 / 2 ^ 72) (5404319552844595 / 2 ^ 54) (5404319552844595 / 2 ^ 53)) = 944473296573929 / 2 ^ 71
   \<and> gross_total (compute_net (4722366482869645 / 2 ^ 72) (5404319552844595 / 2 ^ 54) (5404319552844595 / 2 ^ 53)) = 4722366482869645 / 2 ^ 72
   \<and> withholding_foreign (compute_net (4722366482869645 / 2 ^ 72) (5404319552844595 / 2 ^ 54) (5404319552844595 / 2 ^ 53)) = 0
   \<and> spanish_tax_to_pay (compute_net (4722366482869645 / 2 ^ 72) (5404319552844595 / 2 ^ 54) (5404319552844595 / 2 ^ 53)) = 0
   \<and> net_total (compute_net (4722366482869645 / 2 ^ 72) (5404319552844595 / 2 ^ 54) (5404319552844595 / 2 ^ 53)) = 0
   \<and> net_total (compute_net (4722366482869645 / 2 ^ 72) (5404319552844595 / 2 ^ 54) (5404319552844595 / 2 ^ 53))
        \<noteq> gross_total (compute_net (4722366482869645 / 2 ^ 72) (5404319552844595 / 2 ^ 54) (5404319552844595 / 2 ^ 53))
            - withholding_foreign (compute_net (4722366482869645 / 2 ^ 72) (5404319552844595 / 2 ^ 54) (5404319552844595 / 2 ^ 53))
            - spanish_tax_to_pay (compute_net (4722366482869645 / 2 ^ 72) (5404319552844595 / 2 ^ 54) (5404319552844595 / 2 ^ 53))"
proof -
  have g: "round_double (1 / 10 ^ 6) = 4722366482869645 / 2 ^ 72"
    using round_double_eval_neg [of 20 "1 / 10 ^ 6"]
    by (simp add: round_half_even_def Let_def)
  have f: "round_double (3 / 10) = 5404319552844595 / 2 ^ 54"
    using round_double_eval_neg [of 2 "3 / 10"]
    by (simp add: round_half_even_def Let_def)
  have d: "round_double (6 / 10) = 5404319552844595 / 2 ^ 53"
    using round_double_eval_neg [of 1 "6 / 10"]
    by (simp add: round_half_even_def Let_def)
  have s4: "float_mul (4722366482869645 / 2 ^ 72) (5404319552844595 / 2 ^ 54) = 2833419889721787 / 2 ^ 73"
    unfolding float_mul_def using round_double_eval_neg [of 22 "(4722366482869645 / 2 ^ 72) * (5404319552844595 / 2 ^ 54)"]
    by (simp add: round_half_even_def Let_def)
  have s5: "float_mul (4722366482869645 / 2 ^ 72) (5404319552844595 / 2 ^ 53) = 2833419889721787 / 2 ^ 72"
    unfolding float_mul_def using round_double_eval_neg [of 21 "(4722366482869645 / 2 ^ 72) * (5404319552844595 / 2 ^ 53)"]
    by (simp add: round_half_even_def Let_def)
  have s6: "float_sub (2833419889721787 / 2 ^ 72) (2833419889721787 / 2 ^ 73) = 2833419889721787 / 2 ^ 73"
    unfolding float_sub_def using round_double_eval_neg [of 22 "(2833419889721787 / 2 ^ 72) - (2833419889721787 / 2 ^ 73)"]
    by (simp add: round_half_even_def Let_def)
  have s7: "max (0::real) (2833419889721787 / 2 ^ 73) = 2833419889721787 / 2 ^ 73"
    by simp
  have s8: "float_sub (4722366482869645 / 2 ^ 72) (2833419889721787 / 2 ^ 73) = 6611313076017503 / 2 ^ 73"
    unfolding float_sub_def using round_double_eval_neg [of 21 "(4722366482869645 / 2 ^ 72) - (2833419889721787 / 2 ^ 73)"]
    by (simp add: round_half_even_def Let_def)
  have s9: "float_sub (6611313076017503 / 2 ^ 73) (2833419889721787 / 2 ^ 73) = 944473296573929 / 2 ^ 71"
    unfolding float_sub_def using round_double_eval_neg [of 22 "(6611313076017503 / 2 ^ 73) - (2833419889721787 / 2 ^ 73)"]
    by (simp add: round_half_even_def Let_def)
  have s10: "round_decimal (4722366482869645 / 2 ^ 72) 6 = 1 / 10 ^ 6"
    by (simp add: round_decimal_def round_half_even_def Let_def)
  have s12: "py_round (4722366482869645 / 2 ^ 72) 6 = 4722366482869645 / 2 ^ 72"
    by (simp only: py_round_def s10 g)
  have s13: "py_round (2833419889721787 / 2 ^ 73) 6 = 0"
    by (simp add: py_round_def round_decimal_def round_half_even_def Let_def)
  have s15: "py_round (944473296573929 / 2 ^ 71) 6 = 0"
    by (simp add: py_round_def round_decimal_def round_half_even_def Let_def)
  have wf: "l_withholding_foreign (compute_net_body (4722366482869645 / 2 ^ 72) (5404319552844595 / 2 ^ 54) (5404319552844595 / 2 ^ 53)) = 2833419889721787 / 2 ^ 73"
    by (simp only: compute_net_body_simps g f d s4 s5 s6 s7 s8 s9 s10 s12 s13 s15)
  have sp: "l_spanish_to_pay (compute_net_body (4722366482869645 / 2 ^ 72) (5404319552844595 / 2 ^ 54) (5404319552844595 / 2 ^ 53)) = 2833419889721787 / 2 ^ 73"
    by (simp only: compute_net_body_simps g f d s4 s5 s6 s7 s8 s9 s10 s12 s13 s15)
  have nt: "l_net_total (compute_net_body (4722366482869645 / 2 ^ 72) (5404319552844595 / 2 ^ 54) (5404319552844595 / 2 ^ 53)) = 944473296573929 / 2 ^ 71"
    by (simp only: compute_net_body_simps g f d s4 s5 s6 s7 s8 s9 s10 s12 s13 s15)
  have gf: "gross_total (compute_net (4722366482869645 / 2 ^ 72) (5404319552844595 / 2 ^ 54) (5404319552844595 / 2 ^ 53)) = 4722366482869645 / 2 ^ 72"
    by (simp only: compute_net_simps g f d s4 s5 s6 s7 s8 s9 s10 s12 s13 s15)
  have wff: "withholding_foreign (compute_net (4722366482869645 / 2 ^ 72) (5404319552844595 / 2 ^ 54) (5404319552844595 / 2 ^ 53)) = 0"
    by (simp only: compute_net_simps wf g f d s4 s5 s6 s7 s8 s9 s10 s12 s13 s15)
  have spf: "spanish_tax_to_pay (compute_net (4722366482869645 / 2 ^ 72) (5404319552844595 / 2 ^ 54) (5404319552844595 / 2 ^ 53)) = 0"
    by (simp only: compute_net_simps sp g f d s4 s5 s6 s7 s8 s9 s10 s12 s13 s15)
  have ntf: "net_total (compute_net (4722366482869645 / 2 ^ 72) (5404319552844595 / 2 ^ 54) (5404319552844595 / 2 ^ 53)) = 0"
    by (simp only: compute_net_simps nt g f d s4 s5 s6 s7 s8 s9 s10 s12 s13 s15)
  have ne: "net_total (compute_net (4722366482869645 / 2 ^ 72) (5404319552844595 / 2 ^ 54) (5404319552844595 / 2 ^ 53))
        \<noteq> gross_total (compute_net (4722366482869645 / 2 ^ 72) (5404319552844595 / 2 ^ 54) (5404319552844595 / 2 ^ 53))
            - withholding_foreign (compute_net (4722366482869645 / 2 ^ 72) (5404319552844595 / 2 ^ 54) (5404319552844595 / 2 ^ 53))
            - spanish_tax_to_pay (compute_net (4722366482869645 / 2 ^ 72) (5404319552844595 / 2 ^ 54) (5404319552844595 / 2 ^ 53))"
    unfolding gf wff spf ntf by simp
  from g f d wf sp nt gf wff spf ntf ne show ?thesis
    by blast
qed

text \<open>
  Claim C2. For \<open>g \<ge> 0\<close>, if the foreign rate is at least the domestic rate, the
  domestic top-up field returned by \<^verbatim>\<open>compute_net\<close> is exactly \<open>0\<close> (and so is the
  top-up before rounding). Rounding is monotone, so the rounded domestic tax is not
  above the rounded foreign withholding, and their rounded difference is not positive.
\<close>

theorem compute_net_topup_zero:
  assumes "0 \<le> g" and "d \<le> f"
  shows "spanish_tax_to_pay (compute_net g f d) = 0
    \<and> l_spanish_to_pay (compute_net_body g f d) = 0"
  using topup_zero [OF assms] by (simp add: compute_net_simps compute_net_body_simps)

theorem compute_net_topup_zero_witness:
  "(0::real) \<le> 55 \<and> SPANISH_RATE \<le> round_double (3 / 10)
   \<and> spanish_tax_to_pay (compute_net 55 (round_double (3 / 10)) SPANISH_RATE) = 0
   \<and> spanish_tax_to_pay (compute_net 55 SPANISH_RATE SPANISH_RATE) = 0"
proof -
  have g: "(0::real) \<le> 55"
    by simp
  have r: "SPANISH_RATE \<le> round_double (3 / 10)"
    unfolding SPANISH_RATE_def by (rule round_double_mono) simp
  have e: "SPANISH_RATE \<le> SPANISH_RATE"
    by simp
  from compute_net_topup_zero [OF g r] compute_net_topup_zero [OF g e] g r show ?thesis
    by blast
qed

text \<open>
  Claim C10. For a gross amount \<open>g \<ge> 0\<close> (a double) and both rates in \<open>[0, 1]\<close>, the net
  amount \<^verbatim>\<open>compute_net\<close> computes before rounding is never negative, never above \<open>g\<close>,
  and equals \<open>g * (1 - max foreign domestic)\<close> up to the rounding errors of double
  arithmetic: it differs from that number by at most \<^verbatim>\<open>g * 2^-51 + 2^-1073\<close>. The returned
  net is never negative either. Exact equality holds in exact arithmetic
  (\<open>net_closed_form_exact\<close>) and not for the doubles (see the counterexample below).
\<close>

theorem compute_net_closed_form:
  assumes "is_double g" and "0 \<le> g" and "0 \<le> f" and "f \<le> 1" and "0 \<le> d" and "d \<le> 1"
  shows "0 \<le> l_net_total (compute_net_body g f d)
    \<and> l_net_total (compute_net_body g f d) \<le> g
    \<and> \<bar>l_net_total (compute_net_body g f d) - g * (1 - max f d)\<bar>
         \<le> g / 2 ^ 51 + 1 / 2 ^ 1073
    \<and> 0 \<le> net_total (compute_net g f d)"
proof -
  have a: "0 \<le> l_net_total (compute_net_body g f d)"
    using assms by (rule net_bounds(1))
  have b: "l_net_total (compute_net_body g f d) \<le> g"
    using assms by (rule net_bounds(2))
  have "\<bar>l_net_total (compute_net_body g f d) - g * (1 - max f d)\<bar>
      \<le> 4 * (g / 2 ^ 53 + 1 / 2 ^ 1075)"
    using assms by (rule net_bounds(3))
  moreover have "4 * (g / 2 ^ 53 + 1 / 2 ^ 1075) = g / 2 ^ 51 + 1 / 2 ^ 1073"
    by simp
  ultimately have c: "\<bar>l_net_total (compute_net_body g f d) - g * (1 - max f d)\<bar>
      \<le> g / 2 ^ 51 + 1 / 2 ^ 1073"
    by (simp only:)
  have "0 \<le> py_round (l_net_total (compute_net_body g f d)) 6"
    using a by (rule py_round_nonneg)
  then have e: "0 \<le> net_total (compute_net g f d)"
    by (simp add: compute_net_simps)
  from a b c e show ?thesis
    by blast
qed

theorem compute_net_closed_form_witness:
  "is_double 1 \<and> (0::real) \<le> 1
   \<and> 0 \<le> DEFAULT_FOREIGN_WITHHOLDING \<and> DEFAULT_FOREIGN_WITHHOLDING \<le> 1
   \<and> 0 \<le> SPANISH_RATE \<and> SPANISH_RATE \<le> 1
   \<and> 0 \<le> l_net_total (compute_net_body 1 DEFAULT_FOREIGN_WITHHOLDING SPANISH_RATE)
   \<and> l_net_total (compute_net_body 1 DEFAULT_FOREIGN_WITHHOLDING SPANISH_RATE) \<le> 1
   \<and> \<bar>l_net_total (compute_net_body 1 DEFAULT_FOREIGN_WITHHOLDING SPANISH_RATE)
        - 1 * (1 - max DEFAULT_FOREIGN_WITHHOLDING SPANISH_RATE)\<bar> \<le> 1 / 2 ^ 51 + 1 / 2 ^ 1073"
proof -
  have g: "(0::real) \<le> 1"
    by simp
  have f: "0 \<le> DEFAULT_FOREIGN_WITHHOLDING \<and> DEFAULT_FOREIGN_WITHHOLDING \<le> 1"
    unfolding DEFAULT_FOREIGN_WITHHOLDING_def by (rule rate_literal_bounds) simp_all
  have d: "0 \<le> SPANISH_RATE \<and> SPANISH_RATE \<le> 1"
    unfolding SPANISH_RATE_def by (rule rate_literal_bounds) simp_all
  from f have f0: "0 \<le> DEFAULT_FOREIGN_WITHHOLDING" and f1: "DEFAULT_FOREIGN_WITHHOLDING \<le> 1"
    by blast+
  from d have d0: "0 \<le> SPANISH_RATE" and d1: "SPANISH_RATE \<le> 1"
    by blast+
  note t = compute_net_closed_form [OF is_double_1 g f0 f1 d0 d1]
  from t have "0 \<le> l_net_total (compute_net_body 1 DEFAULT_FOREIGN_WITHHOLDING SPANISH_RATE)"
    by blast
  moreover from t have "l_net_total (compute_net_body 1 DEFAULT_FOREIGN_WITHHOLDING SPANISH_RATE) \<le> 1"
    by blast
  moreover from t have "\<bar>l_net_total (compute_net_body 1 DEFAULT_FOREIGN_WITHHOLDING SPANISH_RATE)
        - 1 * (1 - max DEFAULT_FOREIGN_WITHHOLDING SPANISH_RATE)\<bar> \<le> 1 / 2 ^ 51 + 1 / 2 ^ 1073"
    by blast
  ultimately show ?thesis
    using is_double_1 g f d by blast
qed

text \<open>
  The net amount before rounding is not a function of the larger rate alone, and not
  equal to \<open>g * (1 - max foreign domestic)\<close>, be it computed exactly or in doubles:
  \<^verbatim>\<open>compute_net(1.0, 0.15, 0.19)\<close> computes the net \<^verbatim>\<open>0.8099999999999999\<close>, while
  \<^verbatim>\<open>compute_net(1.0, 0.19, 0.19)\<close> computes \<^verbatim>\<open>0.81\<close>, which is also the value of
  \<^verbatim>\<open>1.0 * (1 - 0.19)\<close>.
\<close>

theorem compute_net_closed_form_counterexample:
  "DEFAULT_FOREIGN_WITHHOLDING = 5404319552844595 / 2 ^ 55
   \<and> SPANISH_RATE = 3422735716801577 / 2 ^ 54
   \<and> max DEFAULT_FOREIGN_WITHHOLDING SPANISH_RATE = max SPANISH_RATE SPANISH_RATE
   \<and> l_net_total (compute_net_body 1 DEFAULT_FOREIGN_WITHHOLDING SPANISH_RATE) = 7295831396340203 / 2 ^ 53
   \<and> l_net_total (compute_net_body 1 SPANISH_RATE SPANISH_RATE) = 1823957849085051 / 2 ^ 51
   \<and> l_net_total (compute_net_body 1 DEFAULT_FOREIGN_WITHHOLDING SPANISH_RATE)
        \<noteq> l_net_total (compute_net_body 1 SPANISH_RATE SPANISH_RATE)
   \<and> l_net_total (compute_net_body 1 DEFAULT_FOREIGN_WITHHOLDING SPANISH_RATE)
        \<noteq> 1 * (1 - max DEFAULT_FOREIGN_WITHHOLDING SPANISH_RATE)
   \<and> l_net_total (compute_net_body 1 DEFAULT_FOREIGN_WITHHOLDING SPANISH_RATE)
        \<noteq> float_mul 1 (float_sub 1 (max DEFAULT_FOREIGN_WITHHOLDING SPANISH_RATE))"
proof -
  have f: "DEFAULT_FOREIGN_WITHHOLDING = 5404319552844595 / 2 ^ 55"
    unfolding DEFAULT_FOREIGN_WITHHOLDING_def using round_double_eval_neg [of 3 "15 / 100"]
    by (simp add: round_half_even_def Let_def)
  have d: "SPANISH_RATE = 3422735716801577 / 2 ^ 54"
    unfolding SPANISH_RATE_def using round_double_eval_neg [of 3 "19 / 100"]
    by (simp add: round_half_even_def Let_def)
  have s3: "float_mul 1 (5404319552844595 / 2 ^ 55) = 5404319552844595 / 2 ^ 55"
    unfolding float_mul_def using round_double_eval_neg [of 3 "1 * (5404319552844595 / 2 ^ 55)"]
    by (simp add: round_half_even_def Let_def)
  have s4: "float_mul 1 (3422735716801577 / 2 ^ 54) = 3422735716801577 / 2 ^ 54"
    unfolding float_mul_def using round_double_eval_neg [of 3 "1 * (3422735716801577 / 2 ^ 54)"]
    by (simp add: round_half_even_def Let_def)
  have s5: "float_sub (3422735716801577 / 2 ^ 54) (5404319552844595 / 2 ^ 55) = 1441151880758559 / 2 ^ 55"
    unfolding float_sub_def using round_double_eval_neg [of 5 "(3422735716801577 / 2 ^ 54) - (5404319552844595 / 2 ^ 55)"]
    by (simp add: round_half_even_def Let_def)
  have s6: "max (0::real) (1441151880758559 / 2 ^ 55) = 1441151880758559 / 2 ^ 55"
    by simp
  have s7: "float_sub 1 (5404319552844595 / 2 ^ 55) = 7656119366529843 / 2 ^ 53"
    unfolding float_sub_def using round_double_eval_neg [of 1 "1 - (5404319552844595 / 2 ^ 55)"]
    by (simp add: round_half_even_def Let_def)
  have s8: "float_sub (7656119366529843 / 2 ^ 53) (1441151880758559 / 2 ^ 55) = 7295831396340203 / 2 ^ 53"
    unfolding float_sub_def using round_double_eval_neg [of 1 "(7656119366529843 / 2 ^ 53) - (1441151880758559 / 2 ^ 55)"]
    by (simp add: round_half_even_def Let_def)
  have s11: "float_sub (3422735716801577 / 2 ^ 54) (3422735716801577 / 2 ^ 54) = 0"
    unfolding float_sub_def by simp
  have s12: "max (0::real) 0 = 0"
    by simp
  have s13: "float_sub 1 (3422735716801577 / 2 ^ 54) = 1823957849085051 / 2 ^ 51"
    unfolding float_sub_def using round_double_eval_neg [of 1 "1 - (3422735716801577 / 2 ^ 54)"]
    by (simp add: round_half_even_def Let_def)
  have s14: "float_sub (1823957849085051 / 2 ^ 51) 0 = 1823957849085051 / 2 ^ 51"
    unfolding float_sub_def using round_double_eval_neg [of 1 "(1823957849085051 / 2 ^ 51) - 0"]
    by (simp add: round_half_even_def Let_def)
  have s16: "float_mul 1 (1823957849085051 / 2 ^ 51) = 1823957849085051 / 2 ^ 51"
    unfolding float_mul_def using round_double_eval_neg [of 1 "1 * (1823957849085051 / 2 ^ 51)"]
    by (simp add: round_half_even_def Let_def)
  have m: "max DEFAULT_FOREIGN_WITHHOLDING SPANISH_RATE = SPANISH_RATE"
    unfolding f d by simp
  have m2: "max DEFAULT_FOREIGN_WITHHOLDING SPANISH_RATE = max SPANISH_RATE SPANISH_RATE"
    unfolding m by simp
  have n1: "l_net_total (compute_net_body 1 DEFAULT_FOREIGN_WITHHOLDING SPANISH_RATE) = 7295831396340203 / 2 ^ 53"
    by (simp only: compute_net_body_simps f d s3 s4 s5 s6 s7 s8 s11 s12 s13 s14 s16)
  have n2: "l_net_total (compute_net_body 1 SPANISH_RATE SPANISH_RATE) = 1823957849085051 / 2 ^ 51"
    by (simp only: compute_net_body_simps f d s3 s4 s5 s6 s7 s8 s11 s12 s13 s14 s16)
  have cf: "float_mul 1 (float_sub 1 (max DEFAULT_FOREIGN_WITHHOLDING SPANISH_RATE)) = 1823957849085051 / 2 ^ 51"
    unfolding m by (simp only: f d s3 s4 s5 s6 s7 s8 s11 s12 s13 s14 s16)
  have ne1: "l_net_total (compute_net_body 1 DEFAULT_FOREIGN_WITHHOLDING SPANISH_RATE)
        \<noteq> l_net_total (compute_net_body 1 SPANISH_RATE SPANISH_RATE)"
    unfolding n1 n2 by simp
  have ne2: "l_net_total (compute_net_body 1 DEFAULT_FOREIGN_WITHHOLDING SPANISH_RATE)
        \<noteq> 1 * (1 - max DEFAULT_FOREIGN_WITHHOLDING SPANISH_RATE)"
    unfolding n1 m unfolding d by simp
  have ne3: "l_net_total (compute_net_body 1 DEFAULT_FOREIGN_WITHHOLDING SPANISH_RATE)
        \<noteq> float_mul 1 (float_sub 1 (max DEFAULT_FOREIGN_WITHHOLDING SPANISH_RATE))"
    unfolding n1 cf by simp
  from f d m2 n1 n2 ne1 ne2 ne3 show ?thesis
    by blast
qed

section \<open>Properties of \<^verbatim>\<open>safe_parse_date\<close>\<close>

lemma safe_parse_date_returns: "\<exists>r. safe_parse_date w x = Inr r"
  by (simp add: safe_parse_date_def split: sum.splits)

lemma safe_parse_date_Inr: "safe_parse_date w x \<noteq> Inl e"
  using safe_parse_date_returns [of w x] by auto

text \<open>
  Claim C5. \<^verbatim>\<open>safe_parse_date\<close> returns for every input (it never raises), and:
  \<^verbatim>\<open>None\<close> and NaN give no value; an \<^verbatim>\<open>int\<close> or a \<^verbatim>\<open>float\<close> is read as epoch seconds and
  gives the local calendar date (no value when the conversion fails); an object with
  \<^verbatim>\<open>to_pydatetime\<close> gives its date component (no value when it has none); a value that
  \<^verbatim>\<open>pd.isna\<close> accepts gives no value; anything else is parsed from its string, and a
  parse failure gives no value.
\<close>

theorem safe_parse_date_policy:
  "(\<exists>res. safe_parse_date w x = Inr res)
   \<and> safe_parse_date w PyNone = Inr None
   \<and> safe_parse_date w (PyFloat NaN) = Inr None
   \<and> safe_parse_date w (PyInt n)
       = Inr (case fromtimestamp w (of_int n) of Inl e \<Rightarrow> None | Inr d \<Rightarrow> Some d)
   \<and> safe_parse_date w (PyFloat (Finite r))
       = Inr (case fromtimestamp w r of Inl e \<Rightarrow> None | Inr d \<Rightarrow> Some d)
   \<and> safe_parse_date w (PyDatetimeLike (Some d0)) = Inr (Some d0)
   \<and> safe_parse_date w (PyDatetimeLike None) = Inr None
   \<and> safe_parse_date w PyNA = Inr None
   \<and> safe_parse_date w PyArrayLike = Inr None
   \<and> safe_parse_date w (PyOther s)
       = Inr (case parse w s of Inl e \<Rightarrow> None | Inr d \<Rightarrow> Some d)"
proof -
  have "\<exists>res. safe_parse_date w x = Inr res"
    by (rule safe_parse_date_returns)
  moreover have "safe_parse_date w PyNone = Inr None"
    and "safe_parse_date w (PyFloat NaN) = Inr None"
    and "safe_parse_date w (PyDatetimeLike (Some d0)) = Inr (Some d0)"
    and "safe_parse_date w (PyDatetimeLike None) = Inr None"
    and "safe_parse_date w PyNA = Inr None"
    and "safe_parse_date w PyArrayLike = Inr None"
    by (simp_all add: safe_parse_date_def)
  moreover have "safe_parse_date w (PyInt n)
      = Inr (case fromtimestamp w (of_int n) of Inl e \<Rightarrow> None | Inr d \<Rightarrow> Some d)"
    by (simp add: safe_parse_date_def split: sum.splits)
  moreover have "safe_parse_date w (PyFloat (Finite r))
      = Inr (case fromtimestamp w r of Inl e \<Rightarrow> None | Inr d \<Rightarrow> Some d)"
    by (simp add: safe_parse_date_def split: sum.splits)
  moreover have "safe_parse_date w (PyOther s)
      = Inr (case parse w s of Inl e \<Rightarrow> None | Inr d \<Rightarrow> Some d)"
    by (simp add: safe_parse_date_def split: sum.splits)
  ultimately show ?thesis
    by blast
qed

text \<open>On the example world: epoch 0, a well-formed and a malformed string.\<close>

lemma safe_parse_date_examples:
  "safe_parse_date example_world (PyInt 0) = Inr (Some (Date 1970 1 1))"
  "safe_parse_date example_world (PyFloat (Finite 5)) = Inr None"
  "safe_parse_date example_world (PyOther ''2024-03-15'') = Inr (Some (Date 2024 3 15))"
  "safe_parse_date example_world (PyOther ''not a date'') = Inr None"
  by (simp_all add: safe_parse_date_def example_world_def)

section \<open>Properties of \<^verbatim>\<open>get_fx_rate\<close>\<close>

lemma upper_str_eq_Nil [simp]: "upper_str s = [] \<longleftrightarrow> s = []"
  by (simp add: upper_str_def)

lemma get_fx_rate_same_upper:
  assumes "base \<noteq> []" and "upper_str base = upper_str target"
  shows "get_fx_rate w (Some base) target = (1, [], [])"
  using assms by (simp add: get_fx_rate_def Let_def)

text \<open>
  Claim C7. For every currency code \<open>X\<close> (a string that is not empty),
  \<^verbatim>\<open>get_fx_rate(X, X)\<close> returns 1.0 and requests nothing from the exchange-rate service
  (and prints nothing); the same holds for any two codes that are equal up to the case of
  their letters, in either order.
\<close>

theorem get_fx_rate_same_currency:
  assumes "X \<noteq> []"
  shows "get_fx_rate w (Some X) X = (1, [], [])
    \<and> (\<forall>Y. upper_str Y = upper_str X \<longrightarrow>
          get_fx_rate w (Some X) Y = (1, [], []) \<and> get_fx_rate w (Some Y) X = (1, [], []))"
proof -
  have "get_fx_rate w (Some X) X = (1, [], [])"
    using assms by (simp add: get_fx_rate_same_upper)
  moreover have "get_fx_rate w (Some X) Y = (1, [], []) \<and> get_fx_rate w (Some Y) X = (1, [], [])"
    if "upper_str Y = upper_str X" for Y
  proof -
    from that assms have "Y \<noteq> []"
      by (metis upper_str_eq_Nil)
    with that assms show ?thesis
      by (simp add: get_fx_rate_same_upper)
  qed
  ultimately show ?thesis
    by blast
qed

lemma upper_str_example: "upper_str ''usd'' = ''USD''" "upper_str ''USD'' = ''USD''"
  by (simp_all add: upper_str_def upper_char_def)

theorem get_fx_rate_same_currency_witness:
  "''USD'' \<noteq> [] \<and> upper_str ''usd'' = upper_str ''USD''
   \<and> get_fx_rate example_world (Some ''USD'') ''USD'' = (1, [], [])
   \<and> get_fx_rate example_world (Some ''USD'') ''usd'' = (1, [], [])
   \<and> get_fx_rate example_world (Some ''usd'') ''USD'' = (1, [], [])"
proof -
  have h: "''USD'' \<noteq> []"
    by simp
  have u: "upper_str ''usd'' = upper_str ''USD''"
    by (simp add: upper_str_example)
  from get_fx_rate_same_currency [OF h, of example_world] u h show ?thesis
    by blast
qed

text \<open>
  The empty string is no currency code: \<^verbatim>\<open>base_currency or "EUR"\<close> replaces it, the
  comparison with the (empty) target fails, and the service is asked for the rates of
  \<^verbatim>\<open>EUR\<close>. A different pair of codes asks the service as well.
\<close>

lemma get_fx_rate_empty_code:
  "fst (snd (get_fx_rate w (Some []) [])) = [fx_url ''EUR'']"
  by (simp add: get_fx_rate_def Let_def upper_str_def upper_char_def
      split: sum.splits fx_json.splits option.splits)

lemma get_fx_rate_offline_example:
  "get_fx_rate example_world (Some ''USD'') ''EUR''
     = (1, [fx_url ''USD''], [FxRateError ''USD'' ''EUR'' (ProviderError ''offline'')])"
  by (simp add: get_fx_rate_def Let_def upper_str_def upper_char_def example_world_def)

section \<open>Properties of \<^verbatim>\<open>fetch_info_for_ticker\<close>\<close>

lemma count_list_distinct:
  "distinct xs \<Longrightarrow> count_list xs x = (if x \<in> set xs then 1 else 0)"
  by (induction xs) auto

lemma set_somes: "set [d. Some d \<leftarrow> xs] = {d. Some d \<in> set xs}"
  by (induction xs) (auto split: option.splits)

lemma clean_up_distinct_sorted:
  assumes "set_order_ok w"
  shows "distinct (earnings_dates (clean_up w st))"
    and "sorted (earnings_dates (clean_up w st))"
    and "distinct (ex_dividend_dates (clean_up w st))"
    and "sorted (ex_dividend_dates (clean_up w st))"
    and "distinct (dividends_history (clean_up w st))"
    and "sorted (map fst (dividends_history (clean_up w st)))"
  using assms by (simp_all add: clean_up_def set_order_ok_def)

lemma clean_up_sets:
  assumes "set_order_ok w"
  shows "set (earnings_dates (clean_up w st)) = {d. Some d \<in> set (st_earnings_dates st)}"
    and "set (ex_dividend_dates (clean_up w st)) = set (st_ex_dividend_dates st)"
    and "set (dividends_history (clean_up w st)) = set (st_dividends_history st)"
proof -
  have "set (earnings_dates (clean_up w st)) = set [d. Some d \<leftarrow> st_earnings_dates st]"
    using assms unfolding clean_up_def set_order_ok_def by (simp del: set_concat)
  then show "set (earnings_dates (clean_up w st)) = {d. Some d \<in> set (st_earnings_dates st)}"
    by (simp only: set_somes)
  show "set (ex_dividend_dates (clean_up w st)) = set (st_ex_dividend_dates st)"
    using assms by (simp add: clean_up_def set_order_ok_def)
  show "set (dividends_history (clean_up w st)) = set (st_dividends_history st)"
    using assms by (simp add: clean_up_def set_order_ok_def)
qed

text \<open>
  Claim C4. Whatever the sources of a ticker contribute (\<open>src\<close> is arbitrary),
  \<^verbatim>\<open>fetch_info_for_ticker\<close> returns, and in the result the earnings dates and the
  ex-dividend dates have no duplicates and are sorted ascending, the dividend pairs have
  no duplicate (date, amount) and are sorted ascending by date. The lists hold exactly
  what the sources contributed: a date contributed once or several times appears
  exactly once.
\<close>

theorem fetch_info_dedup_sorted:
  assumes "set_order_ok w" and "yf_Ticker w ticker = Inr src"
  shows "\<exists>info lg. fetch_info_for_ticker w ticker = Inr (info, lg)
    \<and> distinct (earnings_dates info) \<and> sorted (earnings_dates info)
    \<and> distinct (ex_dividend_dates info) \<and> sorted (ex_dividend_dates info)
    \<and> distinct (dividends_history info) \<and> sorted (map fst (dividends_history info))
    \<and> set (earnings_dates info)
        = {d. Some d \<in> set (st_earnings_dates (fetch_collect w ticker src))}
    \<and> set (ex_dividend_dates info) = set (st_ex_dividend_dates (fetch_collect w ticker src))
    \<and> set (dividends_history info) = set (st_dividends_history (fetch_collect w ticker src))
    \<and> (\<forall>d. count_list (ex_dividend_dates info) d
          = (if d \<in> set (st_ex_dividend_dates (fetch_collect w ticker src)) then 1 else 0))
    \<and> (\<forall>d. count_list (earnings_dates info) d
          = (if Some d \<in> set (st_earnings_dates (fetch_collect w ticker src)) then 1 else 0))
    \<and> (\<forall>p. count_list (dividends_history info) p
          = (if p \<in> set (st_dividends_history (fetch_collect w ticker src)) then 1 else 0))"
proof -
  let ?st = "fetch_collect w ticker src"
  let ?info = "clean_up w ?st"
  have f: "fetch_info_for_ticker w ticker = Inr (?info, st_log ?st)"
    using assms(2) by (simp add: fetch_info_for_ticker_def Let_def)
  note ds = clean_up_distinct_sorted [OF assms(1), of ?st]
  note ss = clean_up_sets [OF assms(1), of ?st]
  have c1: "count_list (ex_dividend_dates ?info) d
      = (if d \<in> set (st_ex_dividend_dates ?st) then 1 else 0)" for d
    using count_list_distinct [OF ds(3), of d] by (simp add: ss)
  have c2: "count_list (earnings_dates ?info) d
      = (if Some d \<in> set (st_earnings_dates ?st) then 1 else 0)" for d
    using count_list_distinct [OF ds(1), of d] by (simp add: ss)
  have c3: "count_list (dividends_history ?info) p
      = (if p \<in> set (st_dividends_history ?st) then 1 else 0)" for p
    using count_list_distinct [OF ds(5), of p] by (simp add: ss)
  show ?thesis
    apply (rule exI [of _ ?info])
    apply (rule exI [of _ "st_log ?st"])
    using f ds ss c1 c2 c3 apply blast
    done
qed

lemma example_world_set_order_ok: "set_order_ok example_world"
  by (simp add: set_order_ok_def example_world_def)

text \<open>
  The example: the calendar and the history both report the ex-dividend date 2024-03-15
  and the payment of 2024-04-01.
\<close>

lemma fetch_collect_example:
  "st_ex_dividend_dates (fetch_collect example_world ''AAA'' example_source)
     = [Date 2024 3 15, Date 2024 3 15]"
  "st_dividends_history (fetch_collect example_world ''AAA'' example_source)
     = [(Date 2024 4 1, 1 / 2), (Date 2024 4 1, 1 / 2), (Date 2024 1 2, 1 / 2)]"
  "st_earnings_dates (fetch_collect example_world ''AAA'' example_source) = []"
  "st_shortName (fetch_collect example_world ''AAA'' example_source) = Some ''Acme''"
  "st_log (fetch_collect example_world ''AAA'' example_source) = []"
  by (simp_all add: fetch_collect_def step_info_def step_calendar_def step_earnings_def
      step_dividends_def step_actions_def calendar_try_def calendar_frame_def cal_earnings_def
      cal_ex_dividend_def cal_dividend_def parse_row_def safe_parse_date_def py_or_def
      initial_fetch_state_def example_source_def example_calendar_rows_def)

theorem fetch_info_dedup_sorted_witness:
  "set_order_ok example_world \<and> yf_Ticker example_world ''AAA'' = Inr example_source
   \<and> (\<exists>info lg. fetch_info_for_ticker example_world ''AAA'' = Inr (info, lg)
        \<and> distinct (ex_dividend_dates info) \<and> sorted (ex_dividend_dates info)
        \<and> distinct (dividends_history info) \<and> sorted (map fst (dividends_history info))
        \<and> count_list (ex_dividend_dates info) (Date 2024 3 15) = 1
        \<and> count_list (dividends_history info) (Date 2024 4 1, 1 / 2) = 1)"
proof -
  have h1: "set_order_ok example_world"
    by (rule example_world_set_order_ok)
  have h2: "yf_Ticker example_world ''AAA'' = Inr example_source"
    by (simp add: example_world_def)
  from fetch_info_dedup_sorted [OF h1 h2] obtain info lg where
    r: "fetch_info_for_ticker example_world ''AAA'' = Inr (info, lg)"
      "distinct (ex_dividend_dates info)" "sorted (ex_dividend_dates info)"
      "distinct (dividends_history info)" "sorted (map fst (dividends_history info))"
      "\<And>d. count_list (ex_dividend_dates info) d
          = (if d \<in> set (st_ex_dividend_dates (fetch_collect example_world ''AAA'' example_source))
             then 1 else 0)"
      "\<And>p. count_list (dividends_history info) p
          = (if p \<in> set (st_dividends_history (fetch_collect example_world ''AAA'' example_source))
             then 1 else 0)"
    by blast
  have "count_list (ex_dividend_dates info) (Date 2024 3 15) = 1"
    by (simp add: r(6) fetch_collect_example)
  moreover have "count_list (dividends_history info) (Date 2024 4 1, 1 / 2) = 1"
    by (simp add: r(7) fetch_collect_example)
  ultimately show ?thesis
    using h1 h2 r(1-5) by blast
qed

lemma example_world_fields:
  "yf_Ticker example_world ''AAA'' = Inr example_source"
  "list_of_date_set example_world = remdups"
  "list_of_pair_set example_world = remdups"
  by (simp_all add: example_world_def)

lemma fetch_info_example:
  "fetch_info_for_ticker example_world ''AAA''
     = Inr (\<lparr>shortName = Some ''Acme'',
             dividends_history = [(Date 2024 1 2, 1 / 2), (Date 2024 4 1, 1 / 2)],
             earnings_dates = [],
             ex_dividend_dates = [Date 2024 3 15]\<rparr>, [])"
  by (simp add: fetch_info_for_ticker_def clean_up_def fetch_collect_example Let_def
      example_world_fields less_eq_date_def)

subsection \<open>The pay date of the calendar\<close>

lemma parse_row_returns: "\<exists>r. parse_row w rows label = Inr r"
  using safe_parse_date_returns by (simp add: parse_row_def split: option.splits)

lemma cal_earnings_keeps:
  "\<exists>st'. cal_earnings w rows st = Inr st'
     \<and> st_dividends_history st' = st_dividends_history st
     \<and> last_div_amount st' = last_div_amount st"
  using parse_row_returns [of w rows "''Earnings Date''"]
  by (auto simp: cal_earnings_def split: option.splits)

lemma cal_ex_dividend_keeps:
  "\<exists>st'. cal_ex_dividend w rows st = Inr st'
     \<and> st_dividends_history st' = st_dividends_history st
     \<and> last_div_amount st' = last_div_amount st"
  using parse_row_returns [of w rows "''Ex-Dividend Date''"]
  by (auto simp: cal_ex_dividend_def split: option.splits)

lemma cal_dividend_pairs:
  assumes "parse_row w rows ''Dividend Date'' = Inr (Some d)"
  shows "(case cal_dividend w rows st of
            Inl e \<Rightarrow> pay_date_pairs d (last_div_amount st) = []
          | Inr st' \<Rightarrow>
              st_dividends_history st'
                = st_dividends_history st @ pay_date_pairs d (last_div_amount st))"
  by (cases "last_div_amount st" rule: py_gt_zero.cases)
    (simp_all add: cal_dividend_def pay_date_pairs_def assms)

lemma step_calendar_history:
  assumes "tk_calendar src = Inr cal" and "calendar_frame cal = Inr rows" and "rows \<noteq> []"
    and "map_of rows ''Dividend Date'' = Some v" and "safe_parse_date w v = Inr (Some d)"
  shows "st_dividends_history (step_calendar w ticker src st)
    = st_dividends_history st @ pay_date_pairs d (last_div_amount st)"
proof -
  have pr: "parse_row w rows ''Dividend Date'' = Inr (Some d)"
    using assms by (simp add: parse_row_def)
  obtain st1 where s1: "cal_earnings w rows st = Inr st1"
    "st_dividends_history st1 = st_dividends_history st"
    "last_div_amount st1 = last_div_amount st"
    using cal_earnings_keeps by blast
  obtain st2 where s2: "cal_ex_dividend w rows st1 = Inr st2"
    "st_dividends_history st2 = st_dividends_history st1"
    "last_div_amount st2 = last_div_amount st1"
    using cal_ex_dividend_keeps by blast
  have t: "calendar_try w src st = run_steps [cal_dividend w rows] st2"
    using assms s1 s2 by (simp add: calendar_try_def)
  show ?thesis
    using cal_dividend_pairs [OF pr, of st2] s1 s2
    by (auto simp: step_calendar_def t add_log_def split: sum.splits)
qed

lemma step_info_last_div:
  "last_div_amount (step_info ticker src initial_fetch_state) = info_last_dividend src"
  "st_dividends_history (step_info ticker src initial_fetch_state) = []"
  by (simp_all add: step_info_def info_last_dividend_def initial_fetch_state_def add_log_def
      split: sum.splits option.splits)

lemma dividends_loop_keeps:
  "set (st_dividends_history st) \<subseteq> set (st_dividends_history (fst (dividends_loop w items st)))"
  by (induction w items st rule: dividends_loop.induct)
    (auto split: sum.splits option.splits)

lemma actions_loop_keeps:
  "st_dividends_history (fst (actions_loop w xs st)) = st_dividends_history st"
  by (induction w xs st rule: actions_loop.induct)
    (auto split: sum.splits option.splits)

lemma step_earnings_keeps:
  "st_dividends_history (step_earnings w ticker src st) = st_dividends_history st"
  by (simp add: step_earnings_def add_log_def split: sum.splits option.splits)

lemma step_dividends_keeps:
  "set (st_dividends_history st) \<subseteq> set (st_dividends_history (step_dividends w ticker src st))"
proof (cases "tk_dividends src")
  case (Inl e)
  then show ?thesis
    by (auto simp: step_dividends_def add_log_def)
next
  case (Inr r)
  show ?thesis
  proof (cases r)
    case None
    with Inr show ?thesis
      by (auto simp: step_dividends_def add_log_def)
  next
    case (Some items)
    obtain st' x where l: "dividends_loop w items st = (st', x)"
      by (cases "dividends_loop w items st")
    with dividends_loop_keeps [of st w items]
    have "set (st_dividends_history st) \<subseteq> set (st_dividends_history st')"
      by simp
    with Inr Some l show ?thesis
      by (cases x) (auto simp: step_dividends_def add_log_def)
  qed
qed

lemma step_actions_keeps:
  "st_dividends_history (step_actions w ticker src st) = st_dividends_history st"
proof (cases "tk_actions src")
  case (Inl e)
  then show ?thesis
    by (simp add: step_actions_def add_log_def)
next
  case (Inr r)
  show ?thesis
  proof (cases r)
    case None
    with Inr show ?thesis
      by (simp add: step_actions_def)
  next
    case (Some actions)
    let ?xs = "map fst (filter (\<lambda>r. 0 < snd r) (action_rows actions))"
    obtain st' x where l: "actions_loop w ?xs st = (st', x)"
      by (cases "actions_loop w ?xs st")
    with actions_loop_keeps [of w ?xs st]
    have "st_dividends_history st' = st_dividends_history st"
      by simp
    with Inr Some l show ?thesis
      by (cases x) (simp_all add: step_actions_def add_log_def)
  qed
qed

lemma positive_amount_iff:
  "positive_amount v = Some a \<longleftrightarrow>
     (v = PyFloat (Finite a) \<and> 0 < a) \<or> (\<exists>n. v = PyInt n \<and> 0 < n \<and> a = round_double (of_int n))"
  by (cases v rule: positive_amount.cases) auto

text \<open>
  Claim C9. When the calendar is a frame (or a dictionary) with rows whose
  \<^verbatim>\<open>Dividend Date\<close> resolves to the date \<open>d\<close>, the calendar step appends the pair
  (\<open>d\<close>, last dividend value) when that value is a strictly positive number, and appends
  nothing otherwise (the value is zero, negative, NaN, \<^verbatim>\<open>None\<close>, not a number, or the
  general-info source had no such key or failed, which leaves 0.0). So after the
  general-info and the calendar source, the pair \<open>(d, a)\<close> is recorded if and only if
  \<open>a\<close> is the last dividend value and is strictly positive; a recorded pair is in the
  result of the fetcher.
\<close>

theorem calendar_pay_date_pair:
  assumes "tk_calendar src = Inr cal" and "calendar_frame cal = Inr rows" and "rows \<noteq> []"
    and "map_of rows ''Dividend Date'' = Some v" and "safe_parse_date w v = Inr (Some d)"
  shows "st_dividends_history (step_calendar w ticker src st)
      = st_dividends_history st
          @ (case positive_amount (last_div_amount st) of None \<Rightarrow> [] | Some a \<Rightarrow> [(d, a)])
    \<and> st_dividends_history (step_calendar w ticker src (step_info ticker src initial_fetch_state))
      = (case positive_amount (info_last_dividend src) of None \<Rightarrow> [] | Some a \<Rightarrow> [(d, a)])
    \<and> (\<forall>a. (d, a) \<in> set (st_dividends_history
                (step_calendar w ticker src (step_info ticker src initial_fetch_state)))
          \<longleftrightarrow> positive_amount (info_last_dividend src) = Some a)
    \<and> (\<forall>a. set_order_ok w \<and> positive_amount (info_last_dividend src) = Some a \<longrightarrow>
          (d, a) \<in> set (dividends_history (clean_up w (fetch_collect w ticker src))))"
proof -
  let ?st1 = "step_calendar w ticker src (step_info ticker src initial_fetch_state)"
  have a: "st_dividends_history (step_calendar w ticker src st)
      = st_dividends_history st
          @ (case positive_amount (last_div_amount st) of None \<Rightarrow> [] | Some a \<Rightarrow> [(d, a)])"
    using step_calendar_history [OF assms, of ticker st] by (simp add: pay_date_pairs_def)
  have b: "st_dividends_history ?st1
      = (case positive_amount (info_last_dividend src) of None \<Rightarrow> [] | Some a \<Rightarrow> [(d, a)])"
    using step_calendar_history [OF assms, of ticker "step_info ticker src initial_fetch_state"]
    by (simp add: pay_date_pairs_def step_info_last_div)
  have c: "(d, a) \<in> set (st_dividends_history ?st1)
      \<longleftrightarrow> positive_amount (info_last_dividend src) = Some a" for a
    unfolding b by (auto split: option.splits)
  have e: "(d, a) \<in> set (dividends_history (clean_up w (fetch_collect w ticker src)))"
    if "set_order_ok w \<and> positive_amount (info_last_dividend src) = Some a" for a
  proof -
    from that c have "(d, a) \<in> set (st_dividends_history ?st1)"
      by simp
    then have "(d, a) \<in> set (st_dividends_history (step_earnings w ticker src ?st1))"
      by (simp add: step_earnings_keeps)
    with step_dividends_keeps [of "step_earnings w ticker src ?st1" w ticker src]
    have "(d, a) \<in> set (st_dividends_history
        (step_dividends w ticker src (step_earnings w ticker src ?st1)))"
      by blast
    then have "(d, a) \<in> set (st_dividends_history (fetch_collect w ticker src))"
      by (simp add: fetch_collect_def step_actions_keeps)
    with that show ?thesis
      by (simp add: clean_up_sets)
  qed
  from a b c e show ?thesis
    by blast
qed

theorem calendar_pay_date_pair_witness:
  "tk_calendar example_source = Inr (CalDict example_calendar_rows)
   \<and> calendar_frame (CalDict example_calendar_rows) = Inr example_calendar_rows
   \<and> example_calendar_rows \<noteq> []
   \<and> map_of example_calendar_rows ''Dividend Date'' = Some (PyDatetimeLike (Some (Date 2024 4 1)))
   \<and> safe_parse_date example_world (PyDatetimeLike (Some (Date 2024 4 1)))
       = Inr (Some (Date 2024 4 1))
   \<and> st_dividends_history (step_calendar example_world ''AAA'' example_source
         (step_info ''AAA'' example_source initial_fetch_state))
       = [(Date 2024 4 1, 1 / 2)]
   \<and> st_dividends_history (step_calendar example_world ''AAA''
         (example_source\<lparr>tk_info := Inr \<lparr>info_shortName = None, info_longName = None,
                                          info_lastDividendValue = Some PyNone\<rparr>\<rparr>)
         (step_info ''AAA''
            (example_source\<lparr>tk_info := Inr \<lparr>info_shortName = None, info_longName = None,
                                             info_lastDividendValue = Some PyNone\<rparr>\<rparr>)
            initial_fetch_state))
       = []"
proof -
  let ?src2 = "example_source\<lparr>tk_info := Inr \<lparr>info_shortName = None, info_longName = None,
                                               info_lastDividendValue = Some PyNone\<rparr>\<rparr>"
  have h1: "tk_calendar example_source = Inr (CalDict example_calendar_rows)"
    by (simp add: example_source_def)
  have h1': "tk_calendar ?src2 = Inr (CalDict example_calendar_rows)"
    by (simp add: example_source_def)
  have h2: "calendar_frame (CalDict example_calendar_rows) = Inr example_calendar_rows"
    by (simp add: calendar_frame_def example_calendar_rows_def)
  have h3: "example_calendar_rows \<noteq> []"
    by (simp add: example_calendar_rows_def)
  have h4: "map_of example_calendar_rows ''Dividend Date''
      = Some (PyDatetimeLike (Some (Date 2024 4 1)))"
    by (simp add: example_calendar_rows_def)
  have h5: "safe_parse_date example_world (PyDatetimeLike (Some (Date 2024 4 1)))
      = Inr (Some (Date 2024 4 1))"
    by (simp add: safe_parse_date_def)
  have l1: "info_last_dividend example_source = PyFloat (Finite (1 / 2))"
    by (simp add: info_last_dividend_def example_source_def)
  have l2: "info_last_dividend ?src2 = PyNone"
    by (simp add: info_last_dividend_def)
  from calendar_pay_date_pair [OF h1 h2 h3 h4 h5, where ticker = "''AAA''"]
  have "st_dividends_history (step_calendar example_world ''AAA'' example_source
        (step_info ''AAA'' example_source initial_fetch_state))
      = (case positive_amount (info_last_dividend example_source) of
           None \<Rightarrow> [] | Some a \<Rightarrow> [(Date 2024 4 1, a)])"
    by blast
  then have e1: "st_dividends_history (step_calendar example_world ''AAA'' example_source
        (step_info ''AAA'' example_source initial_fetch_state))
      = [(Date 2024 4 1, 1 / 2)]"
    by (simp add: l1)
  from calendar_pay_date_pair [OF h1' h2 h3 h4 h5, where ticker = "''AAA''"]
  have "st_dividends_history (step_calendar example_world ''AAA'' ?src2
        (step_info ''AAA'' ?src2 initial_fetch_state))
      = (case positive_amount (info_last_dividend ?src2) of
           None \<Rightarrow> [] | Some a \<Rightarrow> [(Date 2024 4 1, a)])"
    by blast
  then have e2: "st_dividends_history (step_calendar example_world ''AAA'' ?src2
        (step_info ''AAA'' ?src2 initial_fetch_state)) = []"
    by (simp add: l2)
  from h1 h2 h3 h4 h5 e1 e2 show ?thesis
    by blast
qed

section \<open>Properties of \<^verbatim>\<open>build_events_from_holdings\<close>\<close>

text \<open>
  Claim C8 asks that no holding aborts the batch. The handler of the loop reads the
  local \<^verbatim>\<open>ticker\<close>, which the \<^verbatim>\<open>try\<close> block binds in its first statement: when that
  statement raises on the first row (the ticker cell of the row is empty, read as NaN),
  the handler itself raises \<^verbatim>\<open>UnboundLocalError\<close> and the function ends with it, whatever
  rows follow.
\<close>

theorem build_events_first_row_without_ticker_aborts:
  "build_events_from_holdings w
     (\<lparr>row_ticker = Some CellNaN, row_cantidad = 100, row_country = Some (CellStr ''US''),
       row_name = None, row_market = Some (CellStr ''NASDAQ'')\<rparr> # rows)
     = Inl UnboundLocalError"
  by (simp add: build_events_from_holdings_def holding_try_def)

text \<open>
  On a later row the same failure is caught, and printed with the ticker of an earlier
  row: here the first row (no shares: skipped) has bound \<^verbatim>\<open>ticker\<close> to \<^verbatim>\<open>AAA\<close>.
\<close>

lemma strip_AAA: "strip ''AAA'' = ''AAA''"
  by (simp add: strip_def is_space_def)

lemma build_events_error_logged_with_earlier_ticker:
  "build_events_from_holdings w
     [\<lparr>row_ticker = Some (CellStr ''AAA''), row_cantidad = 0, row_country = None,
       row_name = None, row_market = None\<rparr>,
      \<lparr>row_ticker = Some CellNaN, row_cantidad = 100, row_country = None,
       row_name = None, row_market = None\<rparr>]
     = Inr ([], [HoldingError ''AAA'' AttributeError])"
proof -
  have first: "holding_try w
      \<lparr>row_ticker = Some (CellStr ''AAA''), row_cantidad = 0, row_country = None,
       row_name = None, row_market = None\<rparr>
      \<lparr>ticker_var = None, events = [], loop_log = []\<rparr>
    = (\<lparr>ticker_var = Some ''AAA'', events = [], loop_log = []\<rparr>, None)"
    by (simp add: holding_try_def strip_AAA cell_strip_upper_def)
  have second: "holding_try w
      \<lparr>row_ticker = Some CellNaN, row_cantidad = 100, row_country = None,
       row_name = None, row_market = None\<rparr>
      \<lparr>ticker_var = Some ''AAA'', events = [], loop_log = []\<rparr>
    = (\<lparr>ticker_var = Some ''AAA'', events = [], loop_log = []\<rparr>, Some AttributeError)"
    by (simp add: holding_try_def)
  show ?thesis
    by (simp add: build_events_from_holdings_def first second)
qed

text \<open>
  Once \<^verbatim>\<open>ticker\<close> is bound it stays bound, and then every exception of a row is caught:
  the loop reaches the end of the list. So a batch whose first row has a ticker string
  is never aborted.
\<close>

lemma holding_try_ticker_string:
  assumes "row_ticker row = Some (CellStr t)"
  shows "ticker_var (fst (holding_try w row st)) = Some (strip t)"
  using assms by (simp add: holding_try_def Let_def split: sum.split prod.split)

lemma holding_try_ticker_bound:
  assumes "ticker_var st \<noteq> None"
  shows "ticker_var (fst (holding_try w row st)) \<noteq> None"
proof (cases "row_ticker row")
  case None
  then show ?thesis
    using assms by (simp add: holding_try_def)
next
  case (Some c)
  show ?thesis
  proof (cases c)
    case CellNaN
    with Some assms show ?thesis
      by (simp add: holding_try_def)
  next
    case (CellStr t)
    with Some holding_try_ticker_string [of row t w st] show ?thesis
      by simp
  qed
qed

lemma holdings_loop_bound_returns:
  "ticker_var st \<noteq> None \<Longrightarrow> \<exists>st'. holdings_loop w rows st = Inr st'"
proof (induction rows arbitrary: st)
  case Nil
  show ?case by simp
next
  case (Cons row rows)
  obtain st1 r where h: "holding_try w row st = (st1, r)"
    by (cases "holding_try w row st")
  with holding_try_ticker_bound [OF Cons.prems, of w row] have b: "ticker_var st1 \<noteq> None"
    by simp
  show ?case
  proof (cases r)
    case None
    with h Cons.IH [OF b] show ?thesis
      by simp
  next
    case (Some e)
    from b obtain t where t: "ticker_var st1 = Some t"
      by auto
    have "ticker_var (st1\<lparr>loop_log := loop_log st1 @ [HoldingError t e]\<rparr>) \<noteq> None"
      using t by simp
    from Cons.IH [OF this] h Some t show ?thesis
      by simp
  qed
qed

lemma build_events_returns_when_first_ticker_is_string:
  assumes "row_ticker row = Some (CellStr t)"
  shows "\<exists>res. build_events_from_holdings w (row # rows) = Inr res"
proof -
  let ?st0 = "\<lparr>ticker_var = None, events = [], loop_log = []\<rparr>"
  obtain st1 r where h: "holding_try w row ?st0 = (st1, r)"
    by (cases "holding_try w row ?st0")
  have b: "ticker_var st1 = Some (strip t)"
    using holding_try_ticker_string [OF assms, of w ?st0] h by simp
  have "\<exists>st'. holdings_loop w (row # rows) ?st0 = Inr st'"
  proof (cases r)
    case None
    with h b holdings_loop_bound_returns [of st1 w rows] show ?thesis
      by simp
  next
    case (Some e)
    with h b
      holdings_loop_bound_returns
        [of "st1\<lparr>loop_log := loop_log st1 @ [HoldingError (strip t) e]\<rparr>" w rows]
    show ?thesis
      by simp
  qed
  then show ?thesis
    by (auto simp: build_events_from_holdings_def)
qed

section \<open>Properties of \<^verbatim>\<open>write_ics_file\<close>\<close>

lemma filter_loop_eq:
  "filter_loop s e evs acc = acc @ filter (in_window s e) evs"
  by (induction evs arbitrary: acc) (simp_all add: in_window_def split: option.splits)

lemma add_loop_eq:
  "add_loop evs cal
     = cal @ concat (map (\<lambda>ev. case ev_date ev of None \<Rightarrow> [] | Some d \<Rightarrow> [ics_of ev d]) evs)"
  by (induction evs arbitrary: cal) (simp_all add: ics_of_def split: option.splits)

lemma concat_filter_in_window:
  "concat (map (\<lambda>ev. case ev_date ev of None \<Rightarrow> [] | Some d \<Rightarrow> [ics_of ev d])
       (filter (in_window s e) evs))
     = emitted s e evs"
  by (induction evs) (simp_all add: emitted_def emit_one_def in_window_def split: option.splits)

lemma written_calendar_eq: "written_calendar fs evs p s e = emitted s e evs"
  by (simp add: written_calendar_def write_ics_file_def Let_def filter_loop_eq add_loop_eq
      concat_filter_in_window)

lemma in_emit_one:
  "x \<in> set (emit_one s e ev)
     \<longleftrightarrow> (\<exists>d. ev_date ev = Some d \<and> s \<le> d \<and> d \<le> e \<and> x = ics_of ev d)"
  by (cases "ev_date ev") (auto simp: emit_one_def)

lemma set_emitted:
  "x \<in> set (emitted s e evs)
     \<longleftrightarrow> (\<exists>ev d. ev \<in> set evs \<and> ev_date ev = Some d \<and> s \<le> d \<and> d \<le> e \<and> x = ics_of ev d)"
proof -
  have "x \<in> set (emitted s e evs) \<longleftrightarrow> (\<exists>ev\<in>set evs. x \<in> set (emit_one s e ev))"
    by (simp add: emitted_def)
  then show ?thesis
    unfolding in_emit_one by blast
qed

lemma length_emitted: "length (emitted s e evs) = length (filter (in_window s e) evs)"
  by (induction evs) (simp_all add: emitted_def emit_one_def in_window_def split: option.splits)

text \<open>
  Claim C6. For every event list and window, the calendar \<^verbatim>\<open>write_ics_file\<close> writes
  (the events it adds to the calendar, in the order of the \<^verbatim>\<open>cal.events.add\<close> calls)
  holds, in the order of the list, one event for each input event whose date lies in
  the window \<open>start \<le> date \<le> end\<close>, and nothing else: an event dated on the first or on
  the last day of the window is written, an event dated before the first day or after
  the last day (one day or more) is not, and an event without a date is not.
\<close>

theorem write_ics_file_window:
  "written_calendar fs evs p s e = emitted s e evs
   \<and> length (written_calendar fs evs p s e) = length (filter (in_window s e) evs)
   \<and> (\<forall>x. x \<in> set (written_calendar fs evs p s e) \<longleftrightarrow>
          (\<exists>ev d. ev \<in> set evs \<and> ev_date ev = Some d \<and> s \<le> d \<and> d \<le> e \<and> x = ics_of ev d))
   \<and> (\<forall>ev. ev_date ev = Some s \<and> s \<le> e \<longrightarrow> written_calendar fs [ev] p s e = [ics_of ev s])
   \<and> (\<forall>ev. ev_date ev = Some e \<and> s \<le> e \<longrightarrow> written_calendar fs [ev] p s e = [ics_of ev e])
   \<and> (\<forall>ev d. ev_date ev = Some d \<and> (d < s \<or> e < d) \<longrightarrow> written_calendar fs [ev] p s e = [])
   \<and> (\<forall>ev. ev_date ev = None \<longrightarrow> written_calendar fs [ev] p s e = [])"
proof -
  have "\<And>x. x \<in> set (emitted s e evs) \<longleftrightarrow>
      (\<exists>ev d. ev \<in> set evs \<and> ev_date ev = Some d \<and> s \<le> d \<and> d \<le> e \<and> x = ics_of ev d)"
    by (simp add: set_emitted)
  moreover have "\<And>ev. ev_date ev = Some s \<and> s \<le> e \<Longrightarrow> emitted s e [ev] = [ics_of ev s]"
    by (simp add: emitted_def emit_one_def)
  moreover have "\<And>ev. ev_date ev = Some e \<and> s \<le> e \<Longrightarrow> emitted s e [ev] = [ics_of ev e]"
    by (simp add: emitted_def emit_one_def)
  moreover have "\<And>ev d. ev_date ev = Some d \<and> (d < s \<or> e < d) \<Longrightarrow> emitted s e [ev] = []"
    by (auto simp: emitted_def emit_one_def)
  moreover have "\<And>ev. ev_date ev = None \<Longrightarrow> emitted s e [ev] = []"
    by (simp add: emitted_def emit_one_def)
  ultimately show ?thesis
    unfolding written_calendar_eq length_emitted by blast
qed

lemma example_dates:
  "Date 2024 3 1 \<le> Date 2024 5 31" "Date 2024 2 29 < Date 2024 3 1"
  "Date 2024 5 31 < Date 2024 6 1"
  by (simp_all add: less_eq_date_def less_date_def)

theorem write_ics_file_window_witness:
  "written_calendar Map.empty
       [example_event (Some (Date 2024 3 1)) ''first day''] ''out.ics''
       (Date 2024 3 1) (Date 2024 5 31)
     = [ics_of (example_event (Some (Date 2024 3 1)) ''first day'') (Date 2024 3 1)]
   \<and> written_calendar Map.empty
       [example_event (Some (Date 2024 5 31)) ''last day''] ''out.ics''
       (Date 2024 3 1) (Date 2024 5 31)
     = [ics_of (example_event (Some (Date 2024 5 31)) ''last day'') (Date 2024 5 31)]
   \<and> written_calendar Map.empty
       [example_event (Some (Date 2024 2 29)) ''day before''] ''out.ics''
       (Date 2024 3 1) (Date 2024 5 31) = []
   \<and> written_calendar Map.empty
       [example_event (Some (Date 2024 6 1)) ''day after''] ''out.ics''
       (Date 2024 3 1) (Date 2024 5 31) = []
   \<and> written_calendar Map.empty
       [example_event None ''no date''] ''out.ics''
       (Date 2024 3 1) (Date 2024 5 31) = []"
proof -
  let ?s = "Date 2024 3 1" and ?e = "Date 2024 5 31"
  note t = write_ics_file_window [of Map.empty "[]" "''out.ics''" ?s ?e]
  from t have
    b1: "\<And>ev. ev_date ev = Some ?s \<and> ?s \<le> ?e
        \<Longrightarrow> written_calendar Map.empty [ev] ''out.ics'' ?s ?e = [ics_of ev ?s]"
    by blast
  from t have
    b2: "\<And>ev. ev_date ev = Some ?e \<and> ?s \<le> ?e
        \<Longrightarrow> written_calendar Map.empty [ev] ''out.ics'' ?s ?e = [ics_of ev ?e]"
    by blast
  from t have
    b3: "\<And>ev d. ev_date ev = Some d \<and> (d < ?s \<or> ?e < d)
        \<Longrightarrow> written_calendar Map.empty [ev] ''out.ics'' ?s ?e = []"
    by blast
  from t have
    b4: "\<And>ev. ev_date ev = None \<Longrightarrow> written_calendar Map.empty [ev] ''out.ics'' ?s ?e = []"
    by blast
  have d1: "ev_date (example_event (Some ?s) ''first day'') = Some ?s \<and> ?s \<le> ?e"
    by (simp add: example_event_def less_eq_date_def less_date_def)
  have d2: "ev_date (example_event (Some ?e) ''last day'') = Some ?e \<and> ?s \<le> ?e"
    by (simp add: example_event_def less_eq_date_def less_date_def)
  have d3: "ev_date (example_event (Some (Date 2024 2 29)) ''day before'') = Some (Date 2024 2 29)
      \<and> (Date 2024 2 29 < ?s \<or> ?e < Date 2024 2 29)"
    by (simp add: example_event_def less_eq_date_def less_date_def)
  have d4: "ev_date (example_event (Some (Date 2024 6 1)) ''day after'') = Some (Date 2024 6 1)
      \<and> (Date 2024 6 1 < ?s \<or> ?e < Date 2024 6 1)"
    by (simp add: example_event_def less_eq_date_def less_date_def)
  have d5: "ev_date (example_event None ''no date'') = None"
    by (simp add: example_event_def)
  from b1 [OF d1] b2 [OF d2] b3 [OF d3] b3 [OF d4] b4 [OF d5] show ?thesis
    by simp
qed

text \<open>The whole example list: the events of the first and of the last day are written.\<close>

lemma written_calendar_example:
  "written_calendar Map.empty example_events ''out.ics'' (Date 2024 3 1) (Date 2024 5 31)
     = [ics_of (example_event (Some (Date 2024 3 1)) ''first day'') (Date 2024 3 1),
        ics_of (example_event (Some (Date 2024 5 31)) ''last day'') (Date 2024 5 31),
        ics_of (example_event (Some (Date 2024 3 1)) ''first day again'') (Date 2024 3 1)]"
  by (simp add: written_calendar_eq emitted_def emit_one_def example_events_def
      example_event_def less_eq_date_def)

lemma map_uid_emitted:
  "map ics_uid (emitted s e evs) = concat (map (uid_one s e) evs)"
  by (induction evs)
    (simp_all add: emitted_def emit_one_def uid_one_def ics_of_def split: option.splits)

lemma uid_one_cong:
  assumes "ev_ticker a = ev_ticker b" and "ev_color a = ev_color b" and "ev_date a = ev_date b"
  shows "uid_one s e a = uid_one s e b"
  using assms by (cases "ev_date b") (simp_all add: uid_one_def)

text \<open>
  Claim C3. The identifier \<^verbatim>\<open>write_ics_file\<close> gives an event is a function of its
  ticker, its category (colour) and its date alone: the identifiers written are those of
  \<open>event_uid\<close> on these three values; two runs over the same event list write the same
  identifiers, whatever the file system holds and whatever the output path is; and two
  events with the same ticker, category and date get the same identifier, whatever
  their texts are.
\<close>

theorem write_ics_file_uid_deterministic:
  "map ics_uid (written_calendar fs evs p s e) = concat (map (uid_one s e) evs)
   \<and> map ics_uid (written_calendar fs evs p s e) = map ics_uid (written_calendar fs' evs p' s e)
   \<and> (\<forall>a b. ev_ticker a = ev_ticker b \<and> ev_color a = ev_color b \<and> ev_date a = ev_date b \<longrightarrow>
          map ics_uid (written_calendar fs [a] p s e)
            = map ics_uid (written_calendar fs [b] p s e))"
proof -
  have 1: "map ics_uid (written_calendar fs evs p s e) = concat (map (uid_one s e) evs)"
    by (simp add: written_calendar_eq map_uid_emitted)
  have 2: "map ics_uid (written_calendar fs evs p s e)
      = map ics_uid (written_calendar fs' evs p' s e)"
    by (simp add: written_calendar_eq)
  have 3: "map ics_uid (written_calendar fs [a] p s e)
      = map ics_uid (written_calendar fs [b] p s e)"
    if "ev_ticker a = ev_ticker b \<and> ev_color a = ev_color b \<and> ev_date a = ev_date b" for a b
    using that uid_one_cong [of a b s e]
    by (simp add: written_calendar_eq map_uid_emitted)
  from 1 2 3 show ?thesis
    by blast
qed

lemma isoformat_example: "isoformat (Date 2024 3 1) = ''2024-03-01''"
  by (simp add: isoformat_def zfill_def str_nat.simps digit_char_def)

theorem write_ics_file_uid_deterministic_witness:
  "map ics_uid (written_calendar Map.empty
       [example_event (Some (Date 2024 3 1)) ''first day''] ''out.ics''
       (Date 2024 3 1) (Date 2024 5 31))
     = map ics_uid (written_calendar Map.empty
       [example_event (Some (Date 2024 3 1)) ''first day again''] ''out.ics''
       (Date 2024 3 1) (Date 2024 5 31))
   \<and> map ics_uid (written_calendar Map.empty
       [example_event (Some (Date 2024 3 1)) ''first day''] ''out.ics''
       (Date 2024 3 1) (Date 2024 5 31))
     = [''AAA-green-2024-03-01@mi.calendario.financiero.v2'']"
proof -
  let ?s = "Date 2024 3 1" and ?e = "Date 2024 5 31"
  let ?a = "example_event (Some ?s) ''first day''"
  let ?b = "example_event (Some ?s) ''first day again''"
  note t = write_ics_file_uid_deterministic
    [of Map.empty "[?a]" "''out.ics''" ?s ?e Map.empty "''out.ics''"]
  from t have same: "ev_ticker ?a = ev_ticker ?b \<and> ev_color ?a = ev_color ?b
      \<and> ev_date ?a = ev_date ?b
    \<Longrightarrow> map ics_uid (written_calendar Map.empty [?a] ''out.ics'' ?s ?e)
        = map ics_uid (written_calendar Map.empty [?b] ''out.ics'' ?s ?e)"
    by blast
  from t have uids: "map ics_uid (written_calendar Map.empty [?a] ''out.ics'' ?s ?e)
      = concat (map (uid_one ?s ?e) [?a])"
    by blast
  have triple: "ev_ticker ?a = ev_ticker ?b \<and> ev_color ?a = ev_color ?b
      \<and> ev_date ?a = ev_date ?b"
    by (simp add: example_event_def)
  have uid_value: "concat (map (uid_one ?s ?e) [?a])
      = [''AAA-green-2024-03-01@mi.calendario.financiero.v2'']"
    by (simp add: uid_one_def example_event_def event_uid_def less_eq_date_def
        isoformat_def zfill_def str_nat.simps digit_char_def)
  from same [OF triple] uids uid_value show ?thesis
    by simp
qed

end
